theory Spec2Isabelle
  imports Main "HOL-Library.Multiset"
begin

section \<open>Decoded JSON and the Python operations applied to it\<close>

text \<open>
  An update arrives as the value \<^verbatim>\<open>request.json()\<close> decodes: a Python object built
  from dicts, lists, strings, integers, booleans and \<^verbatim>\<open>None\<close>. The handlers are
  dynamically typed and pass most of these values on unchanged, so the model keeps them
  as \<open>json\<close> values. A dict is an association list whose first binding of a key is
  the dict's value; \<open>JNull\<close> is \<^verbatim>\<open>None\<close>. A Python \<^verbatim>\<open>str\<close> is the list of
  the bytes of its UTF-8 encoding: comparison, concatenation and \<^verbatim>\<open>startswith\<close>
  agree on code points and on their encoding. Numbers with a fraction are not
  represented.
\<close>

datatype json =
    JNull
  | JBool bool
  | JInt int
  | JStr string
  | JList "json list"
  | JObj "(string \<times> json) list"

text \<open>
  The exceptions of the model. \<open>NotFoundError\<close> is the error the specification names
  for a missing conversation; no statement of the source raises it.
\<close>

datatype exn =
    KeyError
  | TypeError
  | AttributeError
  | ValueError
  | JSONDecodeError
  | IntegrityError
  | MultipleResultsFound
  | OperationalError
  | DataError
  | HTTPError
  | NotFoundError

text \<open>\<^verbatim>\<open>bool(x)\<close>, as \<^verbatim>\<open>if x:\<close> evaluates it.\<close>

fun truthy :: "json \<Rightarrow> bool" where
  "truthy JNull = False"
| "truthy (JBool b) = b"
| "truthy (JInt n) = (n \<noteq> 0)"
| "truthy (JStr s) = (s \<noteq> [])"
| "truthy (JList xs) = (xs \<noteq> [])"
| "truthy (JObj kvs) = (kvs \<noteq> [])"

text \<open>\<^verbatim>\<open>x[k]\<close> with a string key: only a dict has one.\<close>

fun subscript :: "json \<Rightarrow> string \<Rightarrow> exn + json" where
  "subscript (JObj kvs) k = (case map_of kvs k of None \<Rightarrow> Inl KeyError | Some v \<Rightarrow> Inr v)"
| "subscript _ k = Inl TypeError"

text \<open>\<^verbatim>\<open>x.get(k, d)\<close>; \<^verbatim>\<open>x.get(k)\<close> is \<open>dict_get x k JNull\<close>.\<close>

fun dict_get :: "json \<Rightarrow> string \<Rightarrow> json \<Rightarrow> exn + json" where
  "dict_get (JObj kvs) k d = (case map_of kvs k of None \<Rightarrow> Inr d | Some v \<Rightarrow> Inr v)"
| "dict_get _ k d = Inl AttributeError"

text \<open>
  \<^verbatim>\<open>text[:50]\<close>, evaluated for the log line only: a string and a list can be sliced,
  every other value raises.
\<close>

fun slice_for_log :: "json \<Rightarrow> exn + unit" where
  "slice_for_log (JStr s) = Inr ()"
| "slice_for_log (JList xs) = Inr ()"
| "slice_for_log _ = Inl TypeError"

text \<open>\<^verbatim>\<open>text.startswith(p)\<close>: a method of \<^verbatim>\<open>str\<close> only.\<close>

fun startswith :: "json \<Rightarrow> string \<Rightarrow> exn + bool" where
  "startswith (JStr s) p = Inr (take (length p) s = p)"
| "startswith _ p = Inl AttributeError"

definition bind_exn :: "exn + 'a \<Rightarrow> ('a \<Rightarrow> exn + 'b) \<Rightarrow> exn + 'b" where
  "bind_exn r f = (case r of Inl x \<Rightarrow> Inl x | Inr a \<Rightarrow> f a)"

section \<open>The data model (src/db/models.py)\<close>

type_synonym uuid = nat
type_synonym time = nat

datatype ConversationStatus = ACTIVE | ESCALATED | RESOLVED | ARCHIVED

datatype SenderType = USER | BOT | AGENT

datatype LeadScore = HOT | WARM | COLD

text \<open>
  The columns hold what the handlers put there, unconverted. The \<open>id\<close> and
  \<open>created_at\<close> columns of the two tables are prefixed, since a field name is a
  constant of the theory.
\<close>

record Conversation =
  c_id :: uuid
  telegram_user_id :: json
  telegram_username :: json
  status :: ConversationStatus
  lead_score :: "LeadScore option"
  escalated_at :: "time option"
  c_created_at :: time
  updated_at :: time

record Message =
  m_id :: uuid
  conversation_id :: uuid
  sender_type :: SenderType
  content :: json
  telegram_message_id :: json
  llm_used :: bool
  llm_model :: json
  llm_tokens_used :: json
  llm_confidence :: json
  llm_latency_ms :: json
  m_created_at :: time

text \<open>\<^verbatim>\<open>SenderType(sender_type)\<close>: the enum member with that value, or \<^verbatim>\<open>ValueError\<close>.\<close>

definition SenderType_of :: "string \<Rightarrow> exn + SenderType" where
  "SenderType_of s =
     (if s = ''user'' then Inr USER
      else if s = ''bot'' then Inr BOT
      else if s = ''agent'' then Inr AGENT
      else Inl ValueError)"

section \<open>The world outside the handlers\<close>

text \<open>
  The round trips to the storage engine, and the calls to the platform's HTTP API
  (the method name and the JSON payload posted to it).
\<close>

datatype db_op =
    SelectConversation
  | CommitConversation
  | RefreshConversation
  | CommitMessage
  | RefreshMessage
  | SelectMessages

datatype api_call = Post string json

text \<open>
  The state the handlers act on: the two tables, in insertion order, and the two logs
  of what was asked of the storage engine and of the platform, oldest first. A call
  is logged when it is attempted, whatever its outcome.
\<close>

record world =
  conversations :: "Conversation list"
  messages :: "Message list"
  outbox :: "api_call list"
  store_calls :: "db_op list"

text \<open>
  What the outside decides while one update is processed: the identifiers
  \<^verbatim>\<open>uuid.uuid4\<close> draws, the readings of \<^verbatim>\<open>datetime.utcnow\<close>, the exception (if
  any) the storage engine raises at a round trip for a reason other than the
  constraints modelled below (unreachable, a value it cannot store), the exception
  (if any) a platform call ends with (a transport failure, a non-success status), and
  the rank by which the storage engine orders rows that a query's \<^verbatim>\<open>ORDER BY\<close>
  leaves equal.
\<close>

record env =
  uuid4_conversation :: uuid
  utcnow_conversation :: time
  utcnow_conversation_updated :: time
  uuid4_message :: uuid
  utcnow_message :: time
  storage_fault :: "db_op \<Rightarrow> exn option"
  platform_fault :: "api_call \<Rightarrow> exn option"
  tie_rank :: "Message \<Rightarrow> nat"

text \<open>A computation on the world that returns a value or raises.\<close>

type_synonym 'a io = "world \<Rightarrow> (exn + 'a) \<times> world"

definition io_return :: "'a \<Rightarrow> 'a io" where
  "io_return a w = (Inr a, w)"

definition io_lift :: "exn + 'a \<Rightarrow> 'a io" where
  "io_lift r w = (r, w)"

definition bind_io :: "'a io \<Rightarrow> ('a \<Rightarrow> 'b io) \<Rightarrow> 'b io" where
  "bind_io m f w = (case m w of (Inl x, w') \<Rightarrow> (Inl x, w') | (Inr a, w') \<Rightarrow> f a w')"

text \<open>\<^verbatim>\<open>try: body  except Exception: log\<close>, the handlers' outermost statement.\<close>

definition swallow :: "unit io \<Rightarrow> unit io" where
  "swallow m w = (Inr (), snd (m w))"

section \<open>The platform client (src/services/telegram_client.py)\<close>

text \<open>
  Both methods build the payload, post it, and re-raise whatever the post ends with.
  The decoded response they return is used by no caller and is left out.
\<close>

definition post :: "env \<Rightarrow> string \<Rightarrow> json \<Rightarrow> unit io" where
  "post e name payload w =
     (let w' = w\<lparr>outbox := outbox w @ [Post name payload]\<rparr>
      in case platform_fault e (Post name payload) of
           Some x \<Rightarrow> (Inl x, w')
         | None \<Rightarrow> (Inr (), w'))"

definition send_message_payload :: "json \<Rightarrow> string \<Rightarrow> json \<Rightarrow> json \<Rightarrow> json" where
  "send_message_payload chat_id body parse_mode reply_markup =
     JObj ([(''chat_id'', chat_id), (''text'', JStr body)]
           @ (if truthy parse_mode then [(''parse_mode'', parse_mode)] else [])
           @ (if truthy reply_markup then [(''reply_markup'', reply_markup)] else []))"

definition send_message :: "env \<Rightarrow> json \<Rightarrow> string \<Rightarrow> json \<Rightarrow> json \<Rightarrow> unit io" where
  "send_message e chat_id body parse_mode reply_markup =
     post e ''sendMessage'' (send_message_payload chat_id body parse_mode reply_markup)"

definition answer_callback_query_payload :: "json \<Rightarrow> json \<Rightarrow> bool \<Rightarrow> json" where
  "answer_callback_query_payload callback_query_id toast show_alert =
     JObj ([(''callback_query_id'', callback_query_id), (''show_alert'', JBool show_alert)]
           @ (if truthy toast then [(''text'', toast)] else []))"

definition answer_callback_query :: "env \<Rightarrow> json \<Rightarrow> json \<Rightarrow> bool \<Rightarrow> unit io" where
  "answer_callback_query e callback_query_id toast show_alert =
     post e ''answerCallbackQuery''
       (answer_callback_query_payload callback_query_id toast show_alert)"

section \<open>The conversation manager (src/services/conversation_manager.py)\<close>

text \<open>One round trip to the storage engine: logged, then failing if the outside says so.\<close>

definition round_trip :: "env \<Rightarrow> db_op \<Rightarrow> unit io" where
  "round_trip e op w =
     (let w' = w\<lparr>store_calls := store_calls w @ [op]\<rparr>
      in case storage_fault e op of
           Some x \<Rightarrow> (Inl x, w')
         | None \<Rightarrow> (Inr (), w'))"

text \<open>
  The column \<open>telegram_user_id\<close> is an \<^verbatim>\<open>Integer\<close>, which PostgreSQL stores in 32
  bits: a query that compares it with an integer outside that range raises before it
  returns a row. Any other value the column cannot hold is left to \<open>storage_fault\<close>.
\<close>

fun out_of_int32 :: "json \<Rightarrow> bool" where
  "out_of_int32 (JInt n) = (n < - 2147483648 \<or> 2147483647 < n)"
| "out_of_int32 _ = False"

text \<open>
  The query of \<^verbatim>\<open>get_or_create\<close> and \<^verbatim>\<open>scalar_one_or_none\<close> on its result: no row,
  the one row, or \<^verbatim>\<open>MultipleResultsFound\<close>.
\<close>

definition active_of :: "json \<Rightarrow> Conversation list \<Rightarrow> Conversation list" where
  "active_of uid cs = filter (\<lambda>c. telegram_user_id c = uid \<and> status c = ACTIVE) cs"

definition select_active :: "env \<Rightarrow> json \<Rightarrow> Conversation option io" where
  "select_active e uid =
     bind_io (round_trip e SelectConversation) (\<lambda>_ w.
       if out_of_int32 uid then (Inl DataError, w)
       else (case active_of uid (conversations w) of
               [] \<Rightarrow> (Inr None, w)
             | [c] \<Rightarrow> (Inr (Some c), w)
             | _ \<Rightarrow> (Inl MultipleResultsFound, w)))"

text \<open>The row \<^verbatim>\<open>Conversation(...)\<close> becomes when it is flushed, column defaults applied.\<close>

definition new_conversation :: "env \<Rightarrow> json \<Rightarrow> json \<Rightarrow> Conversation" where
  "new_conversation e uid uname =
     \<lparr>c_id = uuid4_conversation e, telegram_user_id = uid, telegram_username = uname,
      status = ACTIVE, lead_score = None, escalated_at = None,
      c_created_at = utcnow_conversation e, updated_at = utcnow_conversation_updated e\<rparr>"

text \<open>
  \<^verbatim>\<open>db.add(conversation); await db.commit()\<close>: the storage engine inserts the row
  unless a constraint of the table forbids it: \<open>id\<close> is the primary key, and
  \<open>telegram_user_id\<close> is declared \<^verbatim>\<open>unique=True\<close>.
\<close>

definition commit_conversation :: "env \<Rightarrow> Conversation \<Rightarrow> unit io" where
  "commit_conversation e c =
     bind_io (round_trip e CommitConversation) (\<lambda>_ w.
       if c_id c \<in> set (map c_id (conversations w))
          \<or> telegram_user_id c \<in> set (map telegram_user_id (conversations w))
       then (Inl IntegrityError, w)
       else (Inr (), w\<lparr>conversations := conversations w @ [c]\<rparr>))"

definition refresh_conversation :: "env \<Rightarrow> Conversation \<Rightarrow> Conversation io" where
  "refresh_conversation e c = bind_io (round_trip e RefreshConversation) (\<lambda>_. io_return c)"

definition get_or_create :: "env \<Rightarrow> json \<Rightarrow> json \<Rightarrow> Conversation io" where
  "get_or_create e uid uname =
     bind_io (select_active e uid) (\<lambda>found.
       case found of
         Some c \<Rightarrow> io_return c
       | None \<Rightarrow>
           bind_io (commit_conversation e (new_conversation e uid uname)) (\<lambda>_.
             refresh_conversation e (new_conversation e uid uname)))"

text \<open>
  \<^verbatim>\<open>Message(...)\<close> and the optional metadata block; \<^verbatim>\<open>if llm_metadata:\<close> is false
  for \<^verbatim>\<open>None\<close> and for an empty dict.
\<close>

definition new_message ::
  "env \<Rightarrow> uuid \<Rightarrow> SenderType \<Rightarrow> json \<Rightarrow> json \<Rightarrow> (string \<times> json) list option \<Rightarrow> Message" where
  "new_message e cid sender body tg_id llm_metadata =
     (let meta = (case llm_metadata of None \<Rightarrow> [] | Some kvs \<Rightarrow> kvs);
          field = (\<lambda>k. case map_of meta k of None \<Rightarrow> JNull | Some v \<Rightarrow> v)
      in \<lparr>m_id = uuid4_message e, conversation_id = cid, sender_type = sender,
          content = body, telegram_message_id = tg_id,
          llm_used = (meta \<noteq> []),
          llm_model = (if meta \<noteq> [] then field ''model'' else JNull),
          llm_tokens_used = (if meta \<noteq> [] then field ''tokens'' else JNull),
          llm_confidence = (if meta \<noteq> [] then field ''confidence'' else JNull),
          llm_latency_ms = (if meta \<noteq> [] then field ''latency_ms'' else JNull),
          m_created_at = utcnow_message e\<rparr>)"

text \<open>
  \<^verbatim>\<open>db.add(message); await db.commit()\<close>: \<open>id\<close> is the primary key and
  \<open>conversation_id\<close> a foreign key into the conversations table. The method itself
  looks nothing up. A value a column of the row cannot hold (a platform message id
  beyond 32 bits, a content that is no string) makes the storage engine raise at this
  round trip: it is one of the faults of \<open>storage_fault\<close>.
\<close>

definition commit_message :: "env \<Rightarrow> Message \<Rightarrow> unit io" where
  "commit_message e m =
     bind_io (round_trip e CommitMessage) (\<lambda>_ w.
       if m_id m \<in> set (map m_id (messages w))
          \<or> conversation_id m \<notin> set (map c_id (conversations w))
       then (Inl IntegrityError, w)
       else (Inr (), w\<lparr>messages := messages w @ [m]\<rparr>))"

definition refresh_message :: "env \<Rightarrow> Message \<Rightarrow> Message io" where
  "refresh_message e m = bind_io (round_trip e RefreshMessage) (\<lambda>_. io_return m)"

definition add_message ::
  "env \<Rightarrow> uuid \<Rightarrow> string \<Rightarrow> json \<Rightarrow> json \<Rightarrow> (string \<times> json) list option \<Rightarrow> Message io" where
  "add_message e cid sender body tg_id llm_metadata =
     bind_io (io_lift (SenderType_of sender)) (\<lambda>s.
       bind_io (commit_message e (new_message e cid s body tg_id llm_metadata)) (\<lambda>_.
         refresh_message e (new_message e cid s body tg_id llm_metadata)))"

text \<open>
  \<^verbatim>\<open>order_by(created_at.desc())\<close>: newest first. Rows with equal timestamps come in
  an order the query does not fix: it is the storage engine's, given here by a rank
  of the rows that the sort by timestamp keeps among equals.
\<close>

definition order_by_desc :: "('a \<Rightarrow> nat) \<Rightarrow> ('a \<Rightarrow> nat) \<Rightarrow> 'a list \<Rightarrow> 'a list" where
  "order_by_desc f rank xs = rev (sort_key f (sort_key rank xs))"

text \<open>
  \<^verbatim>\<open>get_messages\<close> hands \<open>limit\<close> to the query as it is. The storage engine is
  PostgreSQL (the models use its \<^verbatim>\<open>UUID\<close> column type), which rejects a negative
  \<^verbatim>\<open>LIMIT\<close>.
\<close>

definition get_messages :: "env \<Rightarrow> uuid \<Rightarrow> int \<Rightarrow> Message list io" where
  "get_messages e cid limit =
     bind_io (round_trip e SelectMessages) (\<lambda>_ w.
       if limit < 0 then (Inl DataError, w)
       else (Inr (rev (take (nat limit)
                (order_by_desc m_created_at (tie_rank e)
                   (filter (\<lambda>m. conversation_id m = cid) (messages w))))), w))"

section \<open>The update handler (src/services/telegram_handler.py)\<close>

text \<open>The characters outside ASCII that the reply texts use, as their UTF-8 bytes.\<close>

definition nl :: string where "nl = [CHR 0x0A]"
definition apostrophe :: string where "apostrophe = [CHR 0x27]"
definition waving_hand :: string where "waving_hand = [CHR 0xF0, CHR 0x9F, CHR 0x91, CHR 0x8B]"
definition rocket :: string where "rocket = [CHR 0xF0, CHR 0x9F, CHR 0x9A, CHR 0x80]"
definition speech_balloon :: string where "speech_balloon = [CHR 0xF0, CHR 0x9F, CHR 0x92, CHR 0xAC]"
definition books :: string where "books = [CHR 0xF0, CHR 0x9F, CHR 0x93, CHR 0x9A]"
definition bust_in_silhouette :: string where "bust_in_silhouette = [CHR 0xF0, CHR 0x9F, CHR 0x91, CHR 0xA4]"
definition robot_face :: string where "robot_face = [CHR 0xF0, CHR 0x9F, CHR 0xA4, CHR 0x96]"
definition clipboard :: string where "clipboard = [CHR 0xF0, CHR 0x9F, CHR 0x93, CHR 0x8B]"
definition bullet :: string where "bullet = [CHR 0xE2, CHR 0x80, CHR 0xA2]"

definition welcome_message :: string where
  "welcome_message =
     waving_hand @ '' Welcome to Dev2Production!'' @ nl @ nl
     @ ''I'' @ apostrophe @ ''m your AI assistant for DevOps, Cloud Architecture, ''
     @ ''and Custom Software Development.'' @ nl @ nl
     @ ''How can I help you today?''"

definition button :: "string \<Rightarrow> string \<Rightarrow> json" where
  "button label callback_data =
     JObj [(''text'', JStr label), (''callback_data'', JStr callback_data)]"

definition keyboard :: json where
  "keyboard =
     JObj [(''inline_keyboard'', JList
       [JList [button (rocket @ '' Start a Project'') ''action:start_project''],
        JList [button (speech_balloon @ '' Ask Questions'') ''action:ask_questions''],
        JList [button (books @ '' Learn About Services'') ''action:services''],
        JList [button (bust_in_silhouette @ '' Talk to Human'') ''action:escalate'']])]"

definition help_text :: string where
  "help_text =
     robot_face @ '' *Bot Commands*'' @ nl @ nl
     @ ''/start - Start conversation'' @ nl
     @ ''/help - Show this help message'' @ nl @ nl
     @ ''*What I can do:*'' @ nl
     @ bullet @ '' Answer questions about DevOps & Cloud'' @ nl
     @ bullet @ '' Help you start a new project'' @ nl
     @ bullet @ '' Connect you with our team'' @ nl
     @ bullet @ '' Provide pricing information''"

definition services_text :: string where
  "services_text =
     books @ '' *Our Services:*'' @ nl @ nl
     @ bullet @ '' DevOps & CI/CD Pipeline Setup'' @ nl
     @ bullet @ '' Cloud Architecture (AWS, Azure, GCP)'' @ nl
     @ bullet @ '' Kubernetes & Container Orchestration'' @ nl
     @ bullet @ '' Infrastructure as Code'' @ nl
     @ bullet @ '' Custom Software Development'' @ nl
     @ bullet @ '' System Integration'' @ nl @ nl
     @ ''Visit: dev2production.tech''"

definition start_project_text :: string where
  "start_project_text =
     clipboard @ '' Project intake flow coming soon! Please describe your project.''"

definition ask_questions_text :: string where
  "ask_questions_text = speech_balloon @ '' Ask me anything about our services!''"

definition escalate_text :: string where
  "escalate_text =
     bust_in_silhouette @ '' Connecting you to our team... (Feature coming soon!)''"

definition received_text :: string where
  "received_text = ''Message received! Full bot functionality coming soon.''"

definition handle_start_command :: "env \<Rightarrow> json \<Rightarrow> unit io" where
  "handle_start_command e chat_id = send_message e chat_id welcome_message JNull keyboard"

definition handle_help_command :: "env \<Rightarrow> json \<Rightarrow> unit io" where
  "handle_help_command e chat_id = send_message e chat_id help_text (JStr ''Markdown'') JNull"

definition handle_command :: "env \<Rightarrow> json \<Rightarrow> string \<Rightarrow> Conversation \<Rightarrow> unit io" where
  "handle_command e chat_id command conversation =
     (if command = ''/start'' then handle_start_command e chat_id
      else if command = ''/help'' then handle_help_command e chat_id
      else send_message e chat_id (''Unknown command: '' @ command) JNull JNull)"

text \<open>
  The body of the \<^verbatim>\<open>try\<close> of \<^verbatim>\<open>handle_message\<close>. Where \<^verbatim>\<open>startswith\<close> has
  returned, the text is a string, and that string is the command.
\<close>

definition handle_message_body :: "env \<Rightarrow> json \<Rightarrow> unit io" where
  "handle_message_body e message =
     bind_io (io_lift (bind_exn (subscript message ''chat'') (\<lambda>c. subscript c ''id''))) (\<lambda>chat_id.
     bind_io (io_lift (bind_exn (subscript message ''from'') (\<lambda>f. subscript f ''id''))) (\<lambda>uid.
     bind_io (io_lift (bind_exn (subscript message ''from'') (\<lambda>f. dict_get f ''username'' JNull))) (\<lambda>username.
     bind_io (io_lift (dict_get message ''text'' (JStr []))) (\<lambda>body.
     bind_io (io_lift (subscript message ''message_id'')) (\<lambda>message_id.
     bind_io (io_lift (slice_for_log body)) (\<lambda>_.
     bind_io (get_or_create e uid username) (\<lambda>conversation.
     bind_io (add_message e (c_id conversation) ''user'' body message_id None) (\<lambda>_.
     bind_io (io_lift (startswith body ''/'')) (\<lambda>is_command.
       if is_command
       then (case body of
               JStr command \<Rightarrow> handle_command e chat_id command conversation
             | _ \<Rightarrow> io_lift (Inl AttributeError))
       else send_message e chat_id received_text JNull JNull)))))))))"

definition handle_message :: "env \<Rightarrow> json \<Rightarrow> unit io" where
  "handle_message e message = swallow (handle_message_body e message)"

text \<open>The body of the \<^verbatim>\<open>try\<close> of \<^verbatim>\<open>handle_callback_query\<close>.\<close>

definition handle_callback_query_body :: "env \<Rightarrow> json \<Rightarrow> unit io" where
  "handle_callback_query_body e callback_query =
     bind_io (io_lift (subscript callback_query ''id'')) (\<lambda>query_id.
     bind_io (io_lift (subscript callback_query ''data'')) (\<lambda>data.
     bind_io (io_lift (bind_exn (subscript callback_query ''message'') (\<lambda>m.
                bind_exn (subscript m ''chat'') (\<lambda>c. subscript c ''id'')))) (\<lambda>chat_id.
     bind_io (answer_callback_query e query_id JNull False) (\<lambda>_.
       if data = JStr ''action:start_project''
       then send_message e chat_id start_project_text JNull JNull
       else if data = JStr ''action:ask_questions''
       then send_message e chat_id ask_questions_text JNull JNull
       else if data = JStr ''action:services''
       then send_message e chat_id services_text (JStr ''Markdown'') JNull
       else if data = JStr ''action:escalate''
       then send_message e chat_id escalate_text JNull JNull
       else io_return ()))))"

definition handle_callback_query :: "env \<Rightarrow> json \<Rightarrow> unit io" where
  "handle_callback_query e callback_query = swallow (handle_callback_query_body e callback_query)"

definition process_update :: "env \<Rightarrow> json \<Rightarrow> unit io" where
  "process_update e update =
     bind_io (io_lift (dict_get update ''message'' JNull)) (\<lambda>message.
     bind_io (io_lift (dict_get update ''callback_query'' JNull)) (\<lambda>callback_query.
       if truthy message then handle_message e message
       else if truthy callback_query then handle_callback_query e callback_query
       else io_return ()))"

section \<open>The webhook endpoint (src/api/webhooks.py)\<close>

text \<open>
  The body of \<^verbatim>\<open>telegram_webhook\<close>, given the configured secret, the value of the
  secret header (\<open>None\<close> when the request has none) and the request body as
  \<^verbatim>\<open>request.json()\<close> decodes it (\<open>None\<close> when decoding raises). A response is its
  status code and its JSON body; the \<^verbatim>\<open>HTTPException\<close> is the response the framework
  makes of it. Only subclasses of \<^verbatim>\<open>Exception\<close> are modelled, so the cancellation of
  the request's task is not.
\<close>

datatype response = Response nat json

definition ok_body :: json where
  "ok_body = JObj [(''ok'', JBool True)]"

definition telegram_webhook ::
  "string \<Rightarrow> env \<Rightarrow> string option \<Rightarrow> json option \<Rightarrow> world \<Rightarrow> response \<times> world" where
  "telegram_webhook secret e x_telegram_bot_api_secret_token body w =
     (if x_telegram_bot_api_secret_token \<noteq> Some secret
      then (Response 403 (JObj [(''detail'', JStr ''Invalid secret'')]), w)
      else
        (case bind_io (io_lift (case body of None \<Rightarrow> Inl JSONDecodeError | Some u \<Rightarrow> Inr u))
                (\<lambda>update_data.
                   bind_io (io_lift (dict_get update_data ''update_id'' JNull)) (\<lambda>_.
                     process_update e update_data)) w of
           (Inr _, w') \<Rightarrow> (Response 200 ok_body, w')
         | (Inl _, w') \<Rightarrow> (Response 200 ok_body, w')))"

section \<open>Concurrent invocations of \<^verbatim>\<open>get_or_create\<close>\<close>

text \<open>
  Every webhook call runs its own coroutine on its own database session, and a
  coroutine gives up control at an \<^verbatim>\<open>await\<close>. \<^verbatim>\<open>get_or_create\<close> has three: the
  query, the commit and the refresh. Between them the storage engine serves the other
  calls, one statement at a time. An invocation is therefore a thread of three atomic
  steps, and a run of several invocations is a schedule: the list of the threads'
  indices in the order they take their steps.
\<close>

datatype goc_thread =
    Calling env json json
  | Inserting env json json
  | Refreshing env Conversation
  | Returned Conversation
  | Raised exn

fun goc_step :: "goc_thread \<Rightarrow> world \<Rightarrow> goc_thread \<times> world" where
  "goc_step (Calling e uid uname) w =
     (case select_active e uid w of
        (Inl x, w') \<Rightarrow> (Raised x, w')
      | (Inr (Some c), w') \<Rightarrow> (Returned c, w')
      | (Inr None, w') \<Rightarrow> (Inserting e uid uname, w'))"
| "goc_step (Inserting e uid uname) w =
     (case commit_conversation e (new_conversation e uid uname) w of
        (Inl x, w') \<Rightarrow> (Raised x, w')
      | (Inr _, w') \<Rightarrow> (Refreshing e (new_conversation e uid uname), w'))"
| "goc_step (Refreshing e c) w =
     (case refresh_conversation e c w of
        (Inl x, w') \<Rightarrow> (Raised x, w')
      | (Inr c', w') \<Rightarrow> (Returned c', w'))"
| "goc_step (Returned c) w = (Returned c, w)"
| "goc_step (Raised x) w = (Raised x, w)"

fun run_schedule :: "nat list \<Rightarrow> goc_thread list \<times> world \<Rightarrow> goc_thread list \<times> world" where
  "run_schedule [] s = s"
| "run_schedule (i # sched) (ts, w) =
     (if i < length ts
      then (case goc_step (ts ! i) w of (t', w') \<Rightarrow> run_schedule sched (ts[i := t'], w'))
      else run_schedule sched (ts, w))"

text \<open>What a finished thread hands back to its caller.\<close>

fun outcome :: "goc_thread \<Rightarrow> (exn + Conversation) option" where
  "outcome (Returned c) = Some (Inr c)"
| "outcome (Raised x) = Some (Inl x)"
| "outcome _ = None"

text \<open>The invocations of one run: each has its own surroundings and its own argument for the display name.\<close>

definition invocations :: "json \<Rightarrow> (env \<times> json) list \<Rightarrow> goc_thread list" where
  "invocations uid calls = map (\<lambda>(e, uname). Calling e uid uname) calls"

section \<open>Properties of the tables\<close>

text \<open>The uniqueness constraint the conversations table declares on \<open>telegram_user_id\<close>.\<close>

definition unique_user_ids :: "world \<Rightarrow> bool" where
  "unique_user_ids w = distinct (map telegram_user_id (conversations w))"

text \<open>
  What ties a thread of an invocation for the user \<open>uid\<close> to the table: it was
  called for that user, and a row it holds is an active row of that user in the
  table.
\<close>

fun thread_consistent :: "json \<Rightarrow> world \<Rightarrow> goc_thread \<Rightarrow> bool" where
  "thread_consistent uid w (Calling e u n) = (u = uid)"
| "thread_consistent uid w (Inserting e u n) = (u = uid)"
| "thread_consistent uid w (Refreshing e c) =
     (c \<in> set (conversations w) \<and> telegram_user_id c = uid \<and> status c = ACTIVE)"
| "thread_consistent uid w (Returned c) =
     (c \<in> set (conversations w) \<and> telegram_user_id c = uid \<and> status c = ACTIVE)"
| "thread_consistent uid w (Raised x) = True"

text \<open>The rows of a conversation, and the callback data of a keyboard's buttons, row by row.\<close>

definition messages_of :: "uuid \<Rightarrow> world \<Rightarrow> Message list" where
  "messages_of cid w = filter (\<lambda>m. conversation_id m = cid) (messages w)"

fun callback_data_of :: "json \<Rightarrow> string list" where
  "callback_data_of (JObj kvs) =
     (case map_of kvs ''callback_data'' of Some (JStr s) \<Rightarrow> [s] | _ \<Rightarrow> [])"
| "callback_data_of _ = []"

fun rows_of :: "json \<Rightarrow> json list" where
  "rows_of (JList xs) = xs"
| "rows_of _ = []"

definition keyboard_tokens :: "json \<Rightarrow> string list" where
  "keyboard_tokens k =
     (case subscript k ''inline_keyboard'' of
        Inr rows \<Rightarrow> concat (map (\<lambda>row. concat (map callback_data_of (rows_of row))) (rows_of rows))
      | Inl _ \<Rightarrow> [])"

section \<open>Concrete surroundings and inputs\<close>

text \<open>
  Surroundings in which nothing fails, every identifier drawn is \<open>n\<close>, every clock
  reading is \<open>n\<close> and equal rows keep their order of insertion; surroundings in
  which the platform refuses one method; and surroundings in which the storage engine
  cannot be reached.
\<close>

definition no_faults :: "nat \<Rightarrow> env" where
  "no_faults n =
     \<lparr>uuid4_conversation = n, utcnow_conversation = n, utcnow_conversation_updated = n,
      uuid4_message = n, utcnow_message = n,
      storage_fault = (\<lambda>_. None), platform_fault = (\<lambda>_. None), tie_rank = (\<lambda>_. 0)\<rparr>"

definition platform_refuses :: "string \<Rightarrow> nat \<Rightarrow> env" where
  "platform_refuses name n =
     (no_faults n)\<lparr>platform_fault :=
        (\<lambda>c. case c of Post name' _ \<Rightarrow> if name' = name then Some HTTPError else None)\<rparr>"

definition storage_down :: "nat \<Rightarrow> env" where
  "storage_down n = (no_faults n)\<lparr>storage_fault := (\<lambda>_. Some OperationalError)\<rparr>"

definition empty_world :: world where
  "empty_world = \<lparr>conversations = [], messages = [], outbox = [], store_calls = []\<rparr>"

text \<open>A world whose only row is a conversation of user 42 that is no longer active.\<close>

definition resolved_42 :: Conversation where
  "resolved_42 =
     \<lparr>c_id = 7, telegram_user_id = JInt 42, telegram_username = JNull, status = RESOLVED,
      lead_score = None, escalated_at = None, c_created_at = 0, updated_at = 0\<rparr>"

definition world_resolved_42 :: world where
  "world_resolved_42 = empty_world\<lparr>conversations := [resolved_42]\<rparr>"

definition chat_message :: "int \<Rightarrow> int \<Rightarrow> string \<Rightarrow> int \<Rightarrow> json" where
  "chat_message chat uid body message_id =
     JObj [(''chat'', JObj [(''id'', JInt chat)]), (''from'', JObj [(''id'', JInt uid)]),
           (''text'', JStr body), (''message_id'', JInt message_id)]"

definition start_update :: json where
  "start_update = JObj [(''message'', chat_message 1 42 ''/start'' 9)]"

definition bogus_update :: json where
  "bogus_update = JObj [(''message'', chat_message 1 42 ''/bogus'' 9)]"

definition callback_query_of :: "string \<Rightarrow> json" where
  "callback_query_of data =
     JObj [(''id'', JStr ''q1''), (''data'', JStr data),
           (''message'', JObj [(''chat'', JObj [(''id'', JInt 1)])])]"

definition callback_update :: "string \<Rightarrow> json" where
  "callback_update data = JObj [(''callback_query'', callback_query_of data)]"

text \<open>
  The press of a button under a message sent in inline mode: the platform names the
  message by \<open>inline_message_id\<close> and sends no \<open>message\<close> field.
\<close>

definition inline_callback_query :: json where
  "inline_callback_query =
     JObj [(''id'', JStr ''q2''), (''data'', JStr ''action:services''),
           (''inline_message_id'', JStr ''i1'')]"

text \<open>A chat-message update whose message has no \<open>from\<close> field.\<close>

definition anonymous_update :: json where
  "anonymous_update =
     JObj [(''update_id'', JInt 5),
           (''message'', JObj [(''chat'', JObj [(''id'', JInt 1)]),
                               (''text'', JStr ''hello''), (''message_id'', JInt 9)])]"

text \<open>
  A world with one active conversation of user 42, and the worlds reached from it by
  inserting messages one after the other: the \<open>n\<close>-th insertion draws the identifier
  \<open>n\<close> and reads the clock as \<open>n\<close>.
\<close>

definition active_42 :: Conversation where
  "active_42 =
     \<lparr>c_id = 1, telegram_user_id = JInt 42, telegram_username = JNull, status = ACTIVE,
      lead_score = None, escalated_at = None, c_created_at = 0, updated_at = 0\<rparr>"

definition world_active_42 :: world where
  "world_active_42 = empty_world\<lparr>conversations := [active_42]\<rparr>"

fun insert_in_order :: "nat list \<Rightarrow> world \<Rightarrow> world" where
  "insert_in_order [] w = w"
| "insert_in_order (n # ns) w =
     insert_in_order ns
       (snd (add_message (no_faults n) 1 ''user'' (JStr ''m'') (JInt (int n)) None w))"

definition inserted :: "nat \<Rightarrow> Message" where
  "inserted n =
     \<lparr>m_id = n, conversation_id = 1, sender_type = USER, content = JStr ''m'',
      telegram_message_id = JInt (int n), llm_used = False, llm_model = JNull,
      llm_tokens_used = JNull, llm_confidence = JNull, llm_latency_ms = JNull,
      m_created_at = n\<rparr>"

section \<open>Unfolding the model on concrete inputs\<close>

lemmas eval_defs =
  telegram_webhook_def process_update_def handle_message_def handle_message_body_def
  handle_callback_query_def handle_callback_query_body_def handle_command_def
  handle_start_command_def handle_help_command_def send_message_def post_def
  send_message_payload_def answer_callback_query_def answer_callback_query_payload_def
  get_or_create_def select_active_def commit_conversation_def refresh_conversation_def
  new_conversation_def add_message_def commit_message_def refresh_message_def new_message_def
  SenderType_of_def round_trip_def active_of_def bind_io_def io_lift_def io_return_def
  bind_exn_def swallow_def no_faults_def empty_world_def

section \<open>The webhook endpoint always acknowledges an authenticated call\<close>

text \<open>
  Claim C1. A call whose secret header equals the configured secret is answered with
  status 200 and the body \<^verbatim>\<open>{"ok": true}\<close>, whatever the request body is, whatever
  the storage engine and the platform do, and whatever exception the processing of the
  update raises. A call whose header is absent or different is answered with status
  403, and the world is left as it was: no storage round trip and no platform call is
  made.
\<close>

theorem telegram_webhook_contract:
  "(hdr = Some secret \<longrightarrow>
      fst (telegram_webhook secret e hdr body w) = Response 200 ok_body)
   \<and> (hdr \<noteq> Some secret \<longrightarrow>
      telegram_webhook secret e hdr body w
        = (Response 403 (JObj [(''detail'', JStr ''Invalid secret'')]), w))"
  by (simp add: telegram_webhook_def split: prod.splits sum.splits)

text \<open>
  The contract on calls with the secret \<open>k\<close>: an update whose message lacks its
  sender (the handler swallows the \<^verbatim>\<open>KeyError\<close> and sends nothing), a body that is
  not a dict (\<^verbatim>\<open>process_update\<close> itself raises on it) and a body that does not
  decode are acknowledged; a missing and a wrong header are rejected.
\<close>

theorem telegram_webhook_contract_witness:
  "fst (telegram_webhook ''k'' (no_faults 1) (Some ''k'') (Some anonymous_update) empty_world)
     = Response 200 ok_body
   \<and> outbox (snd (telegram_webhook ''k'' (no_faults 1) (Some ''k'') (Some anonymous_update)
                empty_world)) = []
   \<and> fst (process_update (no_faults 1) (JList []) empty_world) = Inl AttributeError
   \<and> fst (telegram_webhook ''k'' (no_faults 1) (Some ''k'') (Some (JList [])) empty_world)
     = Response 200 ok_body
   \<and> fst (telegram_webhook ''k'' (no_faults 1) (Some ''k'') None empty_world)
     = Response 200 ok_body
   \<and> telegram_webhook ''k'' (no_faults 1) None (Some start_update) empty_world
     = (Response 403 (JObj [(''detail'', JStr ''Invalid secret'')]), empty_world)
   \<and> telegram_webhook ''k'' (no_faults 1) (Some ''j'') (Some start_update) empty_world
     = (Response 403 (JObj [(''detail'', JStr ''Invalid secret'')]), empty_world)"
  using
    telegram_webhook_contract [of "Some ''k''" "''k''" "no_faults 1" "Some anonymous_update" empty_world]
    telegram_webhook_contract [of "Some ''k''" "''k''" "no_faults 1" "Some (JList [])" empty_world]
    telegram_webhook_contract [of "Some ''k''" "''k''" "no_faults 1" None empty_world]
    telegram_webhook_contract [of None "''k''" "no_faults 1" "Some start_update" empty_world]
    telegram_webhook_contract [of "Some ''j''" "''k''" "no_faults 1" "Some start_update" empty_world]
  by (simp add: eval_defs anonymous_update_def start_update_def chat_message_def)

section \<open>What the store operations do and what they leave alone\<close>

lemma get_or_create_frame:
  "outbox (snd (get_or_create e uid uname w)) = outbox w
   \<and> messages (snd (get_or_create e uid uname w)) = messages w"
  by (simp add: get_or_create_def select_active_def commit_conversation_def
        refresh_conversation_def round_trip_def bind_io_def io_return_def Let_def
      split: option.splits list.splits)

lemma add_message_frame:
  "outbox (snd (add_message e cid sender body tg_id meta w)) = outbox w
   \<and> conversations (snd (add_message e cid sender body tg_id meta w)) = conversations w"
  by (simp add: add_message_def commit_message_def refresh_message_def round_trip_def
        bind_io_def io_return_def io_lift_def Let_def
      split: option.splits sum.splits)

lemma subscript_truthy: "subscript x k = Inr v \<Longrightarrow> truthy x"
  by (cases x) (auto split: option.splits)

lemma dict_get_of_dict: "subscript x k = Inr v \<Longrightarrow> \<exists>u. dict_get x k' d = Inr u"
  by (cases x) (auto split: option.splits)

lemma SenderType_of_known:
  "sender \<in> {''user'', ''bot'', ''agent''} \<Longrightarrow> \<exists>s. SenderType_of sender = Inr s"
  by (auto simp add: SenderType_of_def)

lemma bind_io_raise: "bind_io (io_lift (Inl x)) f w = (Inl x, w)"
  by (simp add: bind_io_def io_lift_def)

lemma bind_io_value: "bind_io (io_lift (Inr a)) f w = f a w"
  by (simp add: bind_io_def io_lift_def)

lemma process_update_message:
  assumes "dict_get update ''message'' JNull = Inr message" and "truthy message"
  shows "process_update e update w = handle_message e message w"
proof -
  obtain kvs where u: "update = JObj kvs" using assms(1) by (cases update) auto
  show ?thesis
    using assms by (simp add: process_update_def u bind_io_def io_lift_def split: option.splits)
qed

lemma active_of_unknown_user:
  "uid \<notin> set (map telegram_user_id cs) \<Longrightarrow> active_of uid cs = []"
  by (induction cs) (auto simp add: active_of_def)

lemma active_of_member:
  "active_of uid cs = [c] \<Longrightarrow> c \<in> set cs \<and> telegram_user_id c = uid \<and> status c = ACTIVE"
proof -
  assume "active_of uid cs = [c]"
  then have "c \<in> set (active_of uid cs)" by simp
  then show ?thesis by (simp add: active_of_def)
qed

lemma active_of_append:
  "active_of uid (cs @ [c])
     = active_of uid cs @ (if telegram_user_id c = uid \<and> status c = ACTIVE then [c] else [])"
  by (simp add: active_of_def)

text \<open>
  \<^verbatim>\<open>get_or_create\<close> for a user without a row, and for a user whose active row the
  query finds; \<^verbatim>\<open>add_message\<close> for a conversation that exists.
\<close>

lemma get_or_create_new_user:
  assumes "uid \<notin> set (map telegram_user_id (conversations w))"
    and "uuid4_conversation e \<notin> set (map c_id (conversations w))"
    and "\<forall>op. storage_fault e op = None"
    and "\<not> out_of_int32 uid"
  shows "get_or_create e uid uname w
           = (Inr (new_conversation e uid uname),
              w\<lparr>conversations := conversations w @ [new_conversation e uid uname],
                store_calls := store_calls w
                  @ [SelectConversation, CommitConversation, RefreshConversation]\<rparr>)"
  using assms active_of_unknown_user [of uid "conversations w"]
  by (simp add: get_or_create_def select_active_def commit_conversation_def
        refresh_conversation_def round_trip_def bind_io_def io_return_def Let_def
        new_conversation_def)

lemma get_or_create_found:
  assumes "active_of uid (conversations w) = [c]"
    and "storage_fault e SelectConversation = None" and "\<not> out_of_int32 uid"
  shows "get_or_create e uid uname w
           = (Inr c, w\<lparr>store_calls := store_calls w @ [SelectConversation]\<rparr>)"
  using assms
  by (simp add: get_or_create_def select_active_def round_trip_def bind_io_def io_return_def
        Let_def)

lemma get_or_create_active:
  assumes "active_of uid (conversations w) = [c]"
  shows "fst (get_or_create e uid uname w)
           = (case storage_fault e SelectConversation of
                Some x \<Rightarrow> Inl x
              | None \<Rightarrow> if out_of_int32 uid then Inl DataError else Inr c)"
  using assms
  by (simp add: get_or_create_def select_active_def round_trip_def bind_io_def io_return_def
        Let_def split: option.splits)

lemma add_message_stored:
  assumes "cid \<in> set (map c_id (conversations w))"
    and "uuid4_message e \<notin> set (map m_id (messages w))"
    and "\<forall>op. storage_fault e op = None"
  shows "add_message e cid ''user'' body tg_id None w
           = (Inr (new_message e cid USER body tg_id None),
              w\<lparr>messages := messages w @ [new_message e cid USER body tg_id None],
                store_calls := store_calls w @ [CommitMessage, RefreshMessage]\<rparr>)"
  using assms
  by (simp add: add_message_def commit_message_def refresh_message_def round_trip_def
        bind_io_def io_return_def io_lift_def Let_def SenderType_of_def new_message_def)

lemma add_message_effect:
  assumes "add_message e cid ''user'' body tg_id None w = (r, w')"
  shows "conversations w' = conversations w
         \<and> (messages w' = messages w
            \<or> messages w' = messages w @ [new_message e cid USER body tg_id None])"
  using assms
  by (auto simp add: add_message_def commit_message_def refresh_message_def round_trip_def
        bind_io_def io_return_def io_lift_def Let_def SenderType_of_def
      split: option.splits if_splits)

lemma store_step_succeeds:
  assumes "\<forall>op. storage_fault e op = None" and "\<not> out_of_int32 uid"
    and "uuid4_message e \<notin> set (map m_id (messages w))"
    and "length (active_of uid (conversations w)) = 1
         \<or> (uid \<notin> set (map telegram_user_id (conversations w))
            \<and> uuid4_conversation e \<notin> set (map c_id (conversations w)))"
  shows "\<exists>c w1 m w2. get_or_create e uid uname w = (Inr c, w1)
           \<and> add_message e (c_id c) ''user'' body tg_id None w1 = (Inr m, w2)"
proof -
  have "\<exists>c w1. get_or_create e uid uname w = (Inr c, w1)
          \<and> c_id c \<in> set (map c_id (conversations w1)) \<and> messages w1 = messages w"
    using assms(4)
  proof
    assume "length (active_of uid (conversations w)) = 1"
    then obtain c where c: "active_of uid (conversations w) = [c]"
      by (cases "active_of uid (conversations w)") auto
    then have "c \<in> set (conversations w)" using active_of_member by blast
    then show ?thesis
      using get_or_create_found [OF c, of e uname] assms(1,2) by auto
  next
    assume "uid \<notin> set (map telegram_user_id (conversations w))
            \<and> uuid4_conversation e \<notin> set (map c_id (conversations w))"
    then show ?thesis
      using get_or_create_new_user [of uid w e uname] assms(1,2) by auto
  qed
  then obtain c w1 where g: "get_or_create e uid uname w = (Inr c, w1)"
      "c_id c \<in> set (map c_id (conversations w1))" "messages w1 = messages w"
    by blast
  have "add_message e (c_id c) ''user'' body tg_id None w1
          = (Inr (new_message e (c_id c) USER body tg_id None),
             w1\<lparr>messages := messages w1 @ [new_message e (c_id c) USER body tg_id None],
               store_calls := store_calls w1 @ [CommitMessage, RefreshMessage]\<rparr>)"
    using g(2,3) assms(1,3) by (intro add_message_stored) simp_all
  then show ?thesis using g(1) by blast
qed

section \<open>Command dispatch\<close>



lemma unknown_command_outbox:
  assumes "dict_get update ''message'' JNull = Inr message"
    and "subscript message ''chat'' = Inr chat" and "subscript chat ''id'' = Inr chat_id"
    and "subscript message ''from'' = Inr sender" and "subscript sender ''id'' = Inr uid"
    and "dict_get sender ''username'' JNull = Inr uname"
    and "dict_get message ''text'' (JStr []) = Inr (JStr command)"
    and "subscript message ''message_id'' = Inr message_id"
    and "take 1 command = ''/''" and "command \<noteq> ''/start''" and "command \<noteq> ''/help''"
  shows "outbox (snd (process_update e update w))
           = outbox w @
             (case get_or_create e uid uname w of
                (Inl x, w1) \<Rightarrow> []
              | (Inr c, w1) \<Rightarrow>
                  (case add_message e (c_id c) ''user'' (JStr command) message_id None w1 of
                     (Inl x, w2) \<Rightarrow> []
                   | (Inr m, w2) \<Rightarrow>
                       [Post ''sendMessage''
                          (JObj [(''chat_id'', chat_id),
                                 (''text'', JStr (''Unknown command: '' @ command))])]))"
proof -
  have t: "truthy message" using assms(2) by (rule subscript_truthy)
  have pm: "process_update e update w = handle_message e message w"
    using assms(1) t by (rule process_update_message)
  obtain r1 w1 where g: "get_or_create e uid uname w = (r1, w1)"
    by (cases "get_or_create e uid uname w") auto
  have o1: "outbox w1 = outbox w" using get_or_create_frame [of e uid uname w] g by simp
  show ?thesis
  proof (cases r1)
    case (Inl x)
    then have "snd (handle_message e message w) = w1"
      using assms(2-8) g
      by (simp add: handle_message_def swallow_def handle_message_body_def bind_io_def
            io_lift_def bind_exn_def)
    then show ?thesis using pm g Inl o1 by simp
  next
    case (Inr c)
    obtain r2 w2 where a: "add_message e (c_id c) ''user'' (JStr command) message_id None w1 = (r2, w2)"
      by (cases "add_message e (c_id c) ''user'' (JStr command) message_id None w1") auto
    have o2: "outbox w2 = outbox w1"
      using add_message_frame [of e "c_id c" "''user''" "JStr command" message_id None w1] a
      by simp
    show ?thesis
    proof (cases r2)
      case (Inl x)
      then have "snd (handle_message e message w) = w2"
        using assms(2-8) g Inr a
        by (simp add: handle_message_def swallow_def handle_message_body_def bind_io_def
              io_lift_def bind_exn_def)
      then show ?thesis using pm g Inr a Inl o1 o2 by simp
    next
      case (Inr m)
      then have "snd (handle_message e message w)
          = snd (send_message e chat_id (''Unknown command: '' @ command) JNull JNull w2)"
        using assms(2-11) g \<open>r1 = Inr c\<close> a
        by (simp add: handle_message_def swallow_def handle_message_body_def bind_io_def
              io_lift_def bind_exn_def handle_command_def)
      then show ?thesis
        using pm g \<open>r1 = Inr c\<close> a Inr o1 o2
        by (simp add: send_message_def send_message_payload_def post_def Let_def
              split: option.splits)
    qed
  qed
qed

text \<open>
  Claim C8, as the code has it. Take an update whose message carries a chat id, a
  sender id, a message id and a text that begins with \<^verbatim>\<open>/\<close> and is neither
  \<^verbatim>\<open>/start\<close> nor \<^verbatim>\<open>/help\<close>. The reply is sent after the conversation has been
  resolved and the message stored, inside the same \<^verbatim>\<open>try\<close>. So processing the
  update adds to the platform log exactly one call, the \<^verbatim>\<open>sendMessage\<close> to that chat
  whose text is \<^verbatim>\<open>"Unknown command: "\<close> followed by the text as it came in, when
  \<^verbatim>\<open>get_or_create\<close> and \<^verbatim>\<open>add_message\<close> return; and it adds nothing when either of
  them raises. They return, and the reply is sent, whenever the storage engine raises
  nothing, the identifiers drawn are not in use, and the sender has one active
  conversation or no row yet.
\<close>

theorem unknown_command_reply:
  assumes "dict_get update ''message'' JNull = Inr message"
    and "subscript message ''chat'' = Inr chat" and "subscript chat ''id'' = Inr chat_id"
    and "subscript message ''from'' = Inr sender" and "subscript sender ''id'' = Inr uid"
    and "dict_get sender ''username'' JNull = Inr uname"
    and "dict_get message ''text'' (JStr []) = Inr (JStr command)"
    and "subscript message ''message_id'' = Inr message_id"
    and "take 1 command = ''/''" and "command \<noteq> ''/start''" and "command \<noteq> ''/help''"
  shows "outbox (snd (process_update e update w))
           = outbox w @
             (case get_or_create e uid uname w of
                (Inl x, w1) \<Rightarrow> []
              | (Inr c, w1) \<Rightarrow>
                  (case add_message e (c_id c) ''user'' (JStr command) message_id None w1 of
                     (Inl x, w2) \<Rightarrow> []
                   | (Inr m, w2) \<Rightarrow>
                       [Post ''sendMessage''
                          (JObj [(''chat_id'', chat_id),
                                 (''text'', JStr (''Unknown command: '' @ command))])]))
         \<and> ((\<forall>op. storage_fault e op = None) \<and> \<not> out_of_int32 uid
              \<and> uuid4_message e \<notin> set (map m_id (messages w))
              \<and> (length (active_of uid (conversations w)) = 1
                 \<or> (uid \<notin> set (map telegram_user_id (conversations w))
                    \<and> uuid4_conversation e \<notin> set (map c_id (conversations w))))
            \<longrightarrow> outbox (snd (process_update e update w))
                = outbox w @ [Post ''sendMessage''
                    (JObj [(''chat_id'', chat_id),
                           (''text'', JStr (''Unknown command: '' @ command))])])"
proof -
  note out = unknown_command_outbox [OF assms, of e w]
  have "outbox (snd (process_update e update w))
          = outbox w @ [Post ''sendMessage''
              (JObj [(''chat_id'', chat_id),
                     (''text'', JStr (''Unknown command: '' @ command))])]"
    if h: "\<forall>op. storage_fault e op = None" "\<not> out_of_int32 uid"
      "uuid4_message e \<notin> set (map m_id (messages w))"
      "length (active_of uid (conversations w)) = 1
         \<or> (uid \<notin> set (map telegram_user_id (conversations w))
            \<and> uuid4_conversation e \<notin> set (map c_id (conversations w)))"
  proof -
    obtain c w1 m w2 where "get_or_create e uid uname w = (Inr c, w1)"
        "add_message e (c_id c) ''user'' (JStr command) message_id None w1 = (Inr m, w2)"
      using store_step_succeeds [OF h, of uname "JStr command" message_id] by blast
    then show ?thesis using out by simp
  qed
  then show ?thesis using out by blast
qed

text \<open>
  The update with the text \<^verbatim>\<open>"/bogus"\<close> from user 42 in chat 1, on empty tables: the
  conversation is created, the message stored, and the one reply reads
  \<^verbatim>\<open>"Unknown command: /bogus"\<close>. With the storage engine out of reach, nothing is
  sent.
\<close>

theorem unknown_command_reply_witness:
  "take 1 ''/bogus'' = ''/'' \<and> ''/bogus'' \<noteq> ''/start'' \<and> ''/bogus'' \<noteq> ''/help''
   \<and> (\<forall>op. storage_fault (no_faults 1) op = None)
   \<and> snd (process_update (no_faults 1) bogus_update empty_world)
     = \<lparr>conversations = [new_conversation (no_faults 1) (JInt 42) JNull],
        messages = [new_message (no_faults 1) 1 USER (JStr ''/bogus'') (JInt 9) None],
        outbox = [Post ''sendMessage''
                    (JObj [(''chat_id'', JInt 1), (''text'', JStr ''Unknown command: /bogus'')])],
        store_calls = [SelectConversation, CommitConversation, RefreshConversation,
                       CommitMessage, RefreshMessage]\<rparr>
   \<and> outbox (snd (process_update (storage_down 1) bogus_update empty_world)) = []"
  using unknown_command_reply [of bogus_update "chat_message 1 42 ''/bogus'' 9"
      "JObj [(''id'', JInt 1)]" "JInt 1" "JObj [(''id'', JInt 42)]" "JInt 42" JNull "''/bogus''"
      "JInt 9" "no_faults 1" empty_world]
    unknown_command_reply [of bogus_update "chat_message 1 42 ''/bogus'' 9"
      "JObj [(''id'', JInt 1)]" "JInt 1" "JObj [(''id'', JInt 42)]" "JInt 42" JNull "''/bogus''"
      "JInt 9" "storage_down 1" empty_world]
  by (simp add: eval_defs bogus_update_def chat_message_def storage_down_def)

text \<open>
  Against claim C8 as stated: the text \<^verbatim>\<open>"/bogus"\<close> begins with \<^verbatim>\<open>/\<close> and is no
  recognized command, yet with the storage engine out of reach the query of
  \<^verbatim>\<open>get_or_create\<close> raises, the handler logs the exception, and no reply is sent.
\<close>

theorem unknown_command_storage_down_counterexample:
  "take 1 ''/bogus'' = ''/'' \<and> ''/bogus'' \<noteq> ''/start'' \<and> ''/bogus'' \<noteq> ''/help''
   \<and> snd (process_update (storage_down 1) bogus_update empty_world)
     = empty_world\<lparr>store_calls := [SelectConversation]\<rparr>"
  by (simp add: eval_defs bogus_update_def chat_message_def storage_down_def)

section \<open>Callback presses\<close>

text \<open>
  Claim C4, as the code has it. For a callback press that carries its id, its data
  and the chat of its message, the first call added to the platform log is the
  acknowledgment, whatever the data. When the acknowledgment succeeds and the data is
  \<^verbatim>\<open>"action:services"\<close>, exactly one call follows it: the services text, sent with
  the Markdown formatting mode. When the acknowledgment fails, the exception leaves
  the handler's \<^verbatim>\<open>try\<close> and nothing follows it.
\<close>

theorem callback_acknowledged_first:
  assumes "subscript cq ''id'' = Inr query_id" and "subscript cq ''data'' = Inr data"
    and "subscript cq ''message'' = Inr m" and "subscript m ''chat'' = Inr chat"
    and "subscript chat ''id'' = Inr chat_id"
  shows "take (Suc (length (outbox w))) (outbox (snd (handle_callback_query e cq w)))
           = outbox w @ [Post ''answerCallbackQuery''
                           (answer_callback_query_payload query_id JNull False)]
         \<and> (platform_fault e (Post ''answerCallbackQuery''
                 (answer_callback_query_payload query_id JNull False)) = None
              \<and> data = JStr ''action:services''
            \<longrightarrow> outbox (snd (handle_callback_query e cq w))
                = outbox w @ [Post ''answerCallbackQuery''
                                (answer_callback_query_payload query_id JNull False),
                              Post ''sendMessage''
                                (send_message_payload chat_id services_text (JStr ''Markdown'') JNull)])
         \<and> (platform_fault e (Post ''answerCallbackQuery''
                 (answer_callback_query_payload query_id JNull False)) \<noteq> None
            \<longrightarrow> outbox (snd (handle_callback_query e cq w))
                = outbox w @ [Post ''answerCallbackQuery''
                                (answer_callback_query_payload query_id JNull False)])"
  using assms
  by (simp add: handle_callback_query_def handle_callback_query_body_def swallow_def
        bind_io_def io_lift_def io_return_def bind_exn_def answer_callback_query_def
        send_message_def post_def Let_def
      split: option.splits)

text \<open>
  A press of the services button, and a press whose data no branch knows: both are
  acknowledged first; the first is answered with the services text, the second with
  nothing.
\<close>

theorem callback_acknowledged_first_witness:
  "outbox (snd (handle_callback_query (no_faults 1) (callback_query_of ''action:services'')
                  empty_world))
     = [Post ''answerCallbackQuery''
          (JObj [(''callback_query_id'', JStr ''q1''), (''show_alert'', JBool False)]),
        Post ''sendMessage''
          (JObj [(''chat_id'', JInt 1), (''text'', JStr services_text),
                 (''parse_mode'', JStr ''Markdown'')])]
   \<and> outbox (snd (handle_callback_query (no_faults 1) (callback_query_of ''action:unheard_of'')
                  empty_world))
     = [Post ''answerCallbackQuery''
          (JObj [(''callback_query_id'', JStr ''q1''), (''show_alert'', JBool False)])]"
  using callback_acknowledged_first [of "callback_query_of ''action:services''" "JStr ''q1''"
      "JStr ''action:services''" "JObj [(''chat'', JObj [(''id'', JInt 1)])]"
      "JObj [(''id'', JInt 1)]" "JInt 1" empty_world "no_faults 1"]
    callback_acknowledged_first [of "callback_query_of ''action:unheard_of''" "JStr ''q1''"
      "JStr ''action:unheard_of''" "JObj [(''chat'', JObj [(''id'', JInt 1)])]"
      "JObj [(''id'', JInt 1)]" "JInt 1" empty_world "no_faults 1"]
  by (simp add: eval_defs callback_query_of_def)

text \<open>
  Against claim C4 as stated: when the platform refuses the acknowledgment, the press
  of the services button ends with the acknowledgment attempt alone in the platform
  log, and no services message. And a press that names its message by
  \<open>inline_message_id\<close> is not acknowledged at all.
\<close>

theorem callback_reply_lost_counterexample:
  "outbox (snd (process_update (platform_refuses ''answerCallbackQuery'' 1)
                  (callback_update ''action:services'') empty_world))
     = [Post ''answerCallbackQuery''
          (JObj [(''callback_query_id'', JStr ''q1''), (''show_alert'', JBool False)])]
   \<and> outbox (snd (handle_callback_query (no_faults 1) inline_callback_query empty_world)) = []"
  by (simp add: eval_defs platform_refuses_def callback_update_def callback_query_of_def
        inline_callback_query_def)

section \<open>Messages of a conversation that does not exist\<close>

lemma commit_message_unknown_conversation:
  assumes "conversation_id m \<notin> set (map c_id (conversations w))"
  shows "isl (fst (commit_message e m w))
         \<and> messages (snd (commit_message e m w)) = messages w
         \<and> conversations (snd (commit_message e m w)) = conversations w
         \<and> (storage_fault e CommitMessage = None
              \<longrightarrow> fst (commit_message e m w) = Inl IntegrityError)"
  using assms
  by (simp add: commit_message_def round_trip_def bind_io_def Let_def split: option.splits)

text \<open>
  Claim C3, as the code has it. \<^verbatim>\<open>add_message\<close> with a conversation id that no row
  of the conversations table has fails and leaves both tables as they were. It looks
  nothing up itself: with one of the three sender roles and a storage engine that
  takes the insert, the failure is the engine's \<^verbatim>\<open>IntegrityError\<close> for the foreign
  key.
\<close>

theorem add_message_unknown_conversation:
  assumes "cid \<notin> set (map c_id (conversations w))"
  shows "isl (fst (add_message e cid sender body tg_id meta w))
         \<and> messages (snd (add_message e cid sender body tg_id meta w)) = messages w
         \<and> conversations (snd (add_message e cid sender body tg_id meta w)) = conversations w
         \<and> (sender \<in> {''user'', ''bot'', ''agent''} \<and> storage_fault e CommitMessage = None
            \<longrightarrow> fst (add_message e cid sender body tg_id meta w) = Inl IntegrityError)"
proof (cases "SenderType_of sender")
  case (Inl x)
  then have "add_message e cid sender body tg_id meta w = (Inl x, w)"
    by (simp add: add_message_def bind_io_def io_lift_def)
  moreover have "\<not> sender \<in> {''user'', ''bot'', ''agent''}"
    using Inl SenderType_of_known [of sender] by auto
  ultimately show ?thesis by simp
next
  case (Inr s)
  have c: "conversation_id (new_message e cid s body tg_id meta) = cid"
    by (simp add: new_message_def Let_def)
  obtain r w' where r: "commit_message e (new_message e cid s body tg_id meta) w = (r, w')"
    by (cases "commit_message e (new_message e cid s body tg_id meta) w") auto
  have "isl r \<and> messages w' = messages w \<and> conversations w' = conversations w
        \<and> (storage_fault e CommitMessage = None \<longrightarrow> r = Inl IntegrityError)"
    using commit_message_unknown_conversation [of "new_message e cid s body tg_id meta" w e]
      assms c r by simp
  then obtain x where x: "r = Inl x" "messages w' = messages w" "conversations w' = conversations w"
      "storage_fault e CommitMessage = None \<longrightarrow> x = IntegrityError"
    by (cases r) auto
  have "add_message e cid sender body tg_id meta w = (Inl x, w')"
    using Inr r x(1) by (simp add: add_message_def bind_io_def io_lift_def)
  then show ?thesis using x by simp
qed

theorem add_message_unknown_conversation_witness:
  "7 \<notin> set (map c_id (conversations empty_world))
   \<and> ''user'' \<in> {''user'', ''bot'', ''agent''}
   \<and> storage_fault (no_faults 1) CommitMessage = None
   \<and> add_message (no_faults 1) 7 ''user'' (JStr ''hi'') JNull None empty_world
     = (Inl IntegrityError, empty_world\<lparr>store_calls := [CommitMessage]\<rparr>)"
  using add_message_unknown_conversation
    [of 7 empty_world "no_faults 1" "''user''" "JStr ''hi''" JNull None]
  by (simp add: eval_defs)

text \<open>
  Against claim C3 as stated: on empty tables, \<^verbatim>\<open>add_message\<close> for conversation 7
  raises \<^verbatim>\<open>IntegrityError\<close>, which is not \<^verbatim>\<open>NotFoundError\<close>.
\<close>

theorem add_message_not_found_counterexample:
  "fst (add_message (no_faults 1) 7 ''user'' (JStr ''hi'') JNull None empty_world)
     = Inl IntegrityError
   \<and> fst (add_message (no_faults 1) 7 ''user'' (JStr ''hi'') JNull None empty_world)
     \<noteq> Inl NotFoundError"
  by (simp add: eval_defs)

section \<open>The most recent messages of a conversation\<close>

lemma newest_first_reversed:
  "rev (take n (order_by_desc f rank xs))
     = drop (length xs - n) (sort_key f (sort_key rank xs))"
  by (simp add: order_by_desc_def take_rev)

lemma newest_sorted: "sorted (map f (drop k (sort_key f xs)))"
proof -
  have "sorted (map f (sort_key f xs))" by (rule sorted_sort_key)
  then have "sorted (drop k (map f (sort_key f xs)))"
    by (simp add: sorted_wrt_drop)
  then show ?thesis by (simp add: drop_map)
qed

lemma newest_rows: "mset (drop k (sort_key f xs)) \<subseteq># mset xs"
proof -
  have "mset (take k (sort_key f xs)) + mset (drop k (sort_key f xs)) = mset xs"
    by (metis append_take_drop_id mset_append mset_sort)
  then show ?thesis by (metis mset_subset_eq_add_right)
qed

lemma older_left_out:
  assumes "x \<in># mset xs - mset (drop k (sort_key f xs))"
    and "y \<in> set (drop k (sort_key f xs))"
  shows "f x \<le> f y"
proof -
  let ?s = "sort_key f xs"
  have "mset (take k ?s) + mset (drop k ?s) = mset xs"
    by (metis append_take_drop_id mset_append mset_sort)
  then have "mset xs - mset (drop k ?s) = mset (take k ?s)"
    by (metis add_diff_cancel_right')
  then have x: "x \<in> set (take k ?s)" using assms(1) by simp
  have "sorted (map f ?s)" by (rule sorted_sort_key)
  then have "sorted (map f (take k ?s) @ map f (drop k ?s))"
    by (metis append_take_drop_id map_append)
  then have "\<forall>a \<in> set (take k ?s). \<forall>b \<in> set (drop k ?s). f a \<le> f b"
    unfolding sorted_append by auto
  then show ?thesis using x assms(2) by blast
qed

text \<open>
  Rows that lie in the table in the order of strictly increasing keys come back from
  the sort as they lie, whatever the rank of the storage engine.
\<close>

lemma sort_key_in_order:
  assumes "sorted (map f xs)" and "distinct (map f xs)"
  shows "sort_key f (sort_key rank xs) = xs"
proof -
  let ?s = "sort_key f (sort_key rank xs)"
  have m: "mset ?s = mset xs" by simp
  then have st: "set ?s = set xs" by (metis mset_eq_setD)
  have "mset (map f ?s) = mset (map f xs)" using m by simp
  then have d: "distinct (map f ?s)" using assms(2) by (metis mset_eq_imp_distinct_iff)
  have "inj_on f (set xs)" using assms(2) by (simp add: distinct_map)
  then have i: "inj_on f (set ?s \<union> set xs)" using st by simp
  have "sorted (map f ?s)" by (rule sorted_sort_key)
  then show ?thesis
    using map_sorted_distinct_set_unique [OF i _ d assms st] by simp
qed

text \<open>
  Claim C6. For a positive limit and a storage engine that answers the query,
  \<^verbatim>\<open>get_messages\<close> returns rows of the conversation, each at most as often as the
  table holds it, oldest first by creation time, as many as the limit allows and the
  conversation has; and the rows of the conversation that it leaves out were created
  no later than every row it returns. Where the conversation's rows lie in the table
  in the order of strictly increasing creation times, as they do after insertions one
  after the other, the result is exactly the last \<open>limit\<close> of them, in that order.
\<close>

theorem get_messages_most_recent:
  assumes "0 < limit" and "storage_fault e SelectMessages = None"
  shows "\<exists>ms. fst (get_messages e cid limit w) = Inr ms
           \<and> sorted (map m_created_at ms)
           \<and> length ms = min (nat limit) (length (messages_of cid w))
           \<and> mset ms \<subseteq># mset (messages_of cid w)
           \<and> (\<forall>old \<in># mset (messages_of cid w) - mset ms. \<forall>m \<in> set ms.
                 m_created_at old \<le> m_created_at m)
           \<and> (sorted (map m_created_at (messages_of cid w))
                \<and> distinct (map m_created_at (messages_of cid w))
              \<longrightarrow> ms = drop (length (messages_of cid w) - nat limit) (messages_of cid w))"
proof -
  let ?xs = "messages_of cid w"
  let ?ys = "sort_key (tie_rank e) ?xs"
  let ?ms = "drop (length ?xs - nat limit) (sort_key m_created_at ?ys)"
  have r: "fst (get_messages e cid limit w) = Inr ?ms"
    using assms
    by (simp add: get_messages_def round_trip_def bind_io_def Let_def messages_of_def
          newest_first_reversed)
  have s: "sorted (map m_created_at ?ms)" by (rule newest_sorted)
  have l: "length ?ms = min (nat limit) (length ?xs)" by simp
  have sub: "mset ?ms \<subseteq># mset ?xs" using newest_rows [of _ m_created_at ?ys] by simp
  have old: "\<forall>old \<in># mset ?xs - mset ?ms. \<forall>m \<in> set ?ms. m_created_at old \<le> m_created_at m"
    using older_left_out [of _ ?ys "length ?xs - nat limit" m_created_at] by simp
  have ord: "sorted (map m_created_at ?xs) \<and> distinct (map m_created_at ?xs)
      \<longrightarrow> ?ms = drop (length ?xs - nat limit) ?xs"
    using sort_key_in_order [of m_created_at ?xs "tie_rank e"] by simp
  show ?thesis using r s l sub old ord by blast
qed

lemma five_inserted:
  "insert_in_order [1, 2, 3, 4, 5] world_active_42
     = world_active_42\<lparr>messages := [inserted 1, inserted 2, inserted 3, inserted 4, inserted 5],
         store_calls := [CommitMessage, RefreshMessage, CommitMessage, RefreshMessage,
           CommitMessage, RefreshMessage, CommitMessage, RefreshMessage,
           CommitMessage, RefreshMessage]\<rparr>"
  by (simp add: eval_defs world_active_42_def active_42_def inserted_def)

text \<open>
  Five messages inserted into the conversation of user 42 with the clock readings 1
  to 5: the limit 3 returns the third, fourth and fifth, in that order. The order is
  the order of the readings: inserted with the readings 5 down to 1, the same three
  come back in the same order.
\<close>

theorem get_messages_most_recent_witness:
  "0 < (3::int) \<and> storage_fault (no_faults 9) SelectMessages = None
   \<and> messages (insert_in_order [1, 2, 3, 4, 5] world_active_42)
     = [inserted 1, inserted 2, inserted 3, inserted 4, inserted 5]
   \<and> sorted (map m_created_at (messages_of 1 (insert_in_order [1, 2, 3, 4, 5] world_active_42)))
   \<and> distinct (map m_created_at (messages_of 1 (insert_in_order [1, 2, 3, 4, 5] world_active_42)))
   \<and> fst (get_messages (no_faults 9) 1 3 (insert_in_order [1, 2, 3, 4, 5] world_active_42))
     = Inr [inserted 3, inserted 4, inserted 5]
   \<and> fst (get_messages (no_faults 9) 1 3 (insert_in_order [5, 4, 3, 2, 1] world_active_42))
     = Inr [inserted 3, inserted 4, inserted 5]"
  using get_messages_most_recent [of 3 "no_faults 9" 1 "insert_in_order [1, 2, 3, 4, 5] world_active_42"]
  by (simp add: five_inserted get_messages_def order_by_desc_def messages_of_def eval_defs
        world_active_42_def active_42_def inserted_def)

text \<open>
  Claim C7, as the code has it. \<^verbatim>\<open>get_messages\<close> has no check of its own on the
  limit. With the limit 0 the query returns no row, and the result is the empty
  list. A negative limit reaches the storage engine as it is, and the engine rejects
  the query: the call fails.
\<close>

theorem get_messages_nonpositive_limit:
  assumes "storage_fault e SelectMessages = None"
  shows "(limit = 0 \<longrightarrow> fst (get_messages e cid limit w) = Inr [])
         \<and> (limit < 0 \<longrightarrow> fst (get_messages e cid limit w) = Inl DataError)"
  using assms
  by (simp add: get_messages_def round_trip_def bind_io_def Let_def)

theorem get_messages_nonpositive_limit_witness:
  "storage_fault (no_faults 9) SelectMessages = None
   \<and> fst (get_messages (no_faults 9) 1 0 (insert_in_order [1, 2, 3, 4, 5] world_active_42)) = Inr []
   \<and> fst (get_messages (no_faults 9) 1 (- 1) (insert_in_order [1, 2, 3, 4, 5] world_active_42))
     = Inl DataError"
  using get_messages_nonpositive_limit [of "no_faults 9" 0 1 "insert_in_order [1, 2, 3, 4, 5] world_active_42"]
    get_messages_nonpositive_limit [of "no_faults 9" "- 1" 1 "insert_in_order [1, 2, 3, 4, 5] world_active_42"]
  by (simp add: no_faults_def)

text \<open>
  Against claim C7 as stated: with the limit \<open>-1\<close>, on a conversation of five
  messages, the call raises and so does not return the empty list.
\<close>

theorem get_messages_negative_limit_counterexample:
  "fst (get_messages (no_faults 9) 1 (- 1) (insert_in_order [1, 2, 3, 4, 5] world_active_42))
     = Inl DataError
   \<and> fst (get_messages (no_faults 9) 1 (- 1) (insert_in_order [1, 2, 3, 4, 5] world_active_42))
     \<noteq> Inr []"
  by (simp add: get_messages_def round_trip_def bind_io_def Let_def no_faults_def)

section \<open>The first message of a user\<close>

text \<open>
  Claim C5 fails on the code for a user whose conversation is no longer active. User
  42 has no active conversation, but has a resolved one. The update
  \<^verbatim>\<open>{"message": {"chat":{"id":1},"from":{"id":42},"text":"/start","message_id":9}}\<close>
  makes \<^verbatim>\<open>get_or_create\<close> look for an active row, find none, and insert a second row
  for the user, as its docstring promises; the insert breaks the uniqueness of
  \<open>telegram_user_id\<close>, the handler swallows the \<^verbatim>\<open>IntegrityError\<close>, and the tables
  and the platform log stay as they were: no conversation is created, no message
  stored, no reply sent.
\<close>

theorem start_inactive_user_nothing_created:
  "active_of (JInt 42) (conversations world_resolved_42) = []
   \<and> snd (process_update (no_faults 1) start_update world_resolved_42)
     = world_resolved_42\<lparr>store_calls := [SelectConversation, CommitConversation]\<rparr>"
  by (simp add: eval_defs start_update_def chat_message_def world_resolved_42_def
        resolved_42_def)

text \<open>
  For a user who has no row at all the claim's effects follow: with identifiers drawn
  that are not in use and a storage engine that raises nothing, processing the update
  adds exactly one conversation row, active, of user 42; exactly one message row, of
  that conversation, from the user, with the content \<^verbatim>\<open>"/start"\<close> and the platform
  message id 9; and exactly one platform call, a \<^verbatim>\<open>sendMessage\<close> to chat 1 with the
  welcome text and the keyboard of four buttons. No row is stored for the reply, and
  the outcome of the platform call changes none of this.
\<close>

theorem start_creates_conversation_and_replies:
  assumes "JInt 42 \<notin> set (map telegram_user_id (conversations w))"
    and "uuid4_conversation e \<notin> set (map c_id (conversations w))"
    and "uuid4_message e \<notin> set (map m_id (messages w))"
    and "\<forall>op. storage_fault e op = None"
  shows "snd (process_update e start_update w)
           = \<lparr>conversations = conversations w @
                [\<lparr>c_id = uuid4_conversation e, telegram_user_id = JInt 42,
                  telegram_username = JNull, status = ACTIVE, lead_score = None,
                  escalated_at = None, c_created_at = utcnow_conversation e,
                  updated_at = utcnow_conversation_updated e\<rparr>],
              messages = messages w @
                [\<lparr>m_id = uuid4_message e, conversation_id = uuid4_conversation e,
                  sender_type = USER, content = JStr ''/start'', telegram_message_id = JInt 9,
                  llm_used = False, llm_model = JNull, llm_tokens_used = JNull,
                  llm_confidence = JNull, llm_latency_ms = JNull,
                  m_created_at = utcnow_message e\<rparr>],
              outbox = outbox w @
                [Post ''sendMessage''
                   (JObj [(''chat_id'', JInt 1), (''text'', JStr welcome_message),
                          (''reply_markup'', keyboard)])],
              store_calls = store_calls w @
                [SelectConversation, CommitConversation, RefreshConversation,
                 CommitMessage, RefreshMessage]\<rparr>
         \<and> keyboard_tokens keyboard
           = [''action:start_project'', ''action:ask_questions'', ''action:services'',
              ''action:escalate'']"
proof -
  let ?c = "new_conversation e (JInt 42) JNull"
  let ?w1 = "w\<lparr>conversations := conversations w @ [?c],
                store_calls := store_calls w
                  @ [SelectConversation, CommitConversation, RefreshConversation]\<rparr>"
  have g: "get_or_create e (JInt 42) JNull w = (Inr ?c, ?w1)"
    using assms(1,2,4) by (intro get_or_create_new_user) simp_all
  have a: "add_message e (c_id ?c) ''user'' (JStr ''/start'') (JInt 9) None ?w1
             = (Inr (new_message e (c_id ?c) USER (JStr ''/start'') (JInt 9) None),
                ?w1\<lparr>messages := messages ?w1 @ [new_message e (c_id ?c) USER (JStr ''/start'') (JInt 9) None],
                  store_calls := store_calls ?w1 @ [CommitMessage, RefreshMessage]\<rparr>)"
    using assms(3,4) by (intro add_message_stored) simp_all
  have k: "truthy keyboard" by (simp add: keyboard_def)
  have t: "keyboard_tokens keyboard
           = [''action:start_project'', ''action:ask_questions'', ''action:services'',
              ''action:escalate'']"
    by (simp add: keyboard_tokens_def keyboard_def button_def)
  have "snd (process_update e start_update w)
          = snd (send_message e (JInt 1) welcome_message JNull keyboard
              (?w1\<lparr>messages := messages ?w1 @ [new_message e (c_id ?c) USER (JStr ''/start'') (JInt 9) None],
                  store_calls := store_calls ?w1 @ [CommitMessage, RefreshMessage]\<rparr>))"
    using g a
    by (simp add: process_update_def start_update_def chat_message_def handle_message_def
          handle_message_body_def swallow_def bind_io_def io_lift_def bind_exn_def
          handle_command_def handle_start_command_def)
  then show ?thesis
    using k t
    by (simp add: send_message_def send_message_payload_def post_def Let_def
          new_conversation_def new_message_def split: option.splits)
qed

text \<open>The same on empty tables, where every identifier drawn and every clock reading is 1.\<close>

theorem start_creates_conversation_and_replies_witness:
  "JInt 42 \<notin> set (map telegram_user_id (conversations empty_world))
   \<and> (\<forall>op. storage_fault (no_faults 1) op = None)
   \<and> conversations (snd (process_update (no_faults 1) start_update empty_world))
     = [\<lparr>c_id = 1, telegram_user_id = JInt 42, telegram_username = JNull, status = ACTIVE,
         lead_score = None, escalated_at = None, c_created_at = 1, updated_at = 1\<rparr>]
   \<and> messages (snd (process_update (no_faults 1) start_update empty_world))
     = [\<lparr>m_id = 1, conversation_id = 1, sender_type = USER, content = JStr ''/start'',
         telegram_message_id = JInt 9, llm_used = False, llm_model = JNull,
         llm_tokens_used = JNull, llm_confidence = JNull, llm_latency_ms = JNull,
         m_created_at = 1\<rparr>]
   \<and> outbox (snd (process_update (no_faults 1) start_update empty_world))
     = [Post ''sendMessage''
          (JObj [(''chat_id'', JInt 1), (''text'', JStr welcome_message),
                 (''reply_markup'', keyboard)])]"
  using start_creates_conversation_and_replies [of empty_world "no_faults 1"]
  by (simp add: no_faults_def empty_world_def)

section \<open>At most one active conversation per user\<close>

lemma at_most_one_active:
  "distinct (map telegram_user_id cs) \<Longrightarrow> length (active_of uid cs) \<le> 1"
proof (induction cs)
  case Nil
  then show ?case by (simp add: active_of_def)
next
  case (Cons c cs)
  show ?case
  proof (cases "telegram_user_id c = uid")
    case True
    then have "uid \<notin> set (map telegram_user_id cs)" using Cons.prems by auto
    then have "active_of uid cs = []" by (rule active_of_unknown_user)
    then show ?thesis by (simp add: active_of_def)
  next
    case False
    then have "active_of uid (c # cs) = active_of uid cs" by (simp add: active_of_def)
    then show ?thesis using Cons by simp
  qed
qed

lemma the_active_row:
  assumes "distinct (map telegram_user_id cs)" and "c \<in> set cs"
    and "telegram_user_id c = uid" and "status c = ACTIVE"
  shows "active_of uid cs = [c]"
proof -
  have "c \<in> set (active_of uid cs)" using assms(2-4) by (simp add: active_of_def)
  moreover have "length (active_of uid cs) \<le> 1" using assms(1) by (rule at_most_one_active)
  ultimately show ?thesis by (cases "active_of uid cs") auto
qed

text \<open>The three steps of \<^verbatim>\<open>get_or_create\<close>, one by one.\<close>

lemma select_active_effect:
  "conversations (snd (select_active e uid w)) = conversations w
   \<and> messages (snd (select_active e uid w)) = messages w
   \<and> outbox (snd (select_active e uid w)) = outbox w
   \<and> (\<forall>c. fst (select_active e uid w) = Inr (Some c) \<longrightarrow> active_of uid (conversations w) = [c])
   \<and> (fst (select_active e uid w) = Inr None \<longrightarrow> active_of uid (conversations w) = [])"
  by (simp add: select_active_def round_trip_def bind_io_def Let_def
      split: option.splits list.splits)

lemma commit_conversation_effect:
  "(fst (commit_conversation e c w) = Inr ()
      \<longrightarrow> conversations (snd (commit_conversation e c w)) = conversations w @ [c]
        \<and> telegram_user_id c \<notin> set (map telegram_user_id (conversations w)))
   \<and> (isl (fst (commit_conversation e c w))
      \<longrightarrow> conversations (snd (commit_conversation e c w)) = conversations w)
   \<and> messages (snd (commit_conversation e c w)) = messages w
   \<and> outbox (snd (commit_conversation e c w)) = outbox w"
  by (simp add: commit_conversation_def round_trip_def bind_io_def Let_def
      split: option.splits)

lemma refresh_conversation_effect:
  "conversations (snd (refresh_conversation e c w)) = conversations w
   \<and> messages (snd (refresh_conversation e c w)) = messages w
   \<and> outbox (snd (refresh_conversation e c w)) = outbox w
   \<and> (\<forall>c'. fst (refresh_conversation e c w) = Inr c' \<longrightarrow> c' = c)"
  by (simp add: refresh_conversation_def round_trip_def bind_io_def io_return_def Let_def
      split: option.splits)

text \<open>
  Every step of every thread keeps the uniqueness constraint and the thread's tie to
  the table, and removes no row; so does every schedule.
\<close>

lemma goc_step_invariant:
  assumes "unique_user_ids w" and "thread_consistent uid w t" and "goc_step t w = (t', w')"
  shows "unique_user_ids w' \<and> thread_consistent uid w' t'
         \<and> set (conversations w) \<subseteq> set (conversations w')"
proof (cases t)
  case (Calling e u n)
  obtain r v where s: "select_active e u w = (r, v)" by (cases "select_active e u w") auto
  have eff: "conversations v = conversations w"
    "\<forall>c. r = Inr (Some c) \<longrightarrow> active_of u (conversations w) = [c]"
    using select_active_effect [of e u w] s by simp_all
  have u: "u = uid" using assms(2) Calling by simp
  show ?thesis
  proof (cases r)
    case (Inl x)
    then show ?thesis using assms(1,3) Calling s eff(1) by (auto simp add: unique_user_ids_def)
  next
    case (Inr found)
    show ?thesis
    proof (cases found)
      case None
      then show ?thesis using assms(1,3) Calling s Inr eff(1) u by (auto simp add: unique_user_ids_def)
    next
      case (Some c)
      then have "active_of u (conversations w) = [c]" using eff(2) Inr by simp
      then have "c \<in> set (conversations w) \<and> telegram_user_id c = u \<and> status c = ACTIVE"
        by (rule active_of_member)
      then show ?thesis
        using assms(1,3) Calling s Inr Some eff(1) u by (auto simp add: unique_user_ids_def)
    qed
  qed
next
  case (Inserting e u n)
  let ?c = "new_conversation e u n"
  obtain r v where s: "commit_conversation e ?c w = (r, v)"
    by (cases "commit_conversation e ?c w") auto
  have u: "u = uid" using assms(2) Inserting by simp
  have nc: "telegram_user_id ?c = u \<and> status ?c = ACTIVE" by (simp add: new_conversation_def)
  show ?thesis
  proof (cases r)
    case (Inl x)
    then have "conversations v = conversations w"
      using commit_conversation_effect [of e ?c w] s by simp
    then show ?thesis using assms(1,3) Inserting s Inl by (auto simp add: unique_user_ids_def)
  next
    case (Inr a)
    then have "conversations v = conversations w @ [?c]
        \<and> telegram_user_id ?c \<notin> set (map telegram_user_id (conversations w))"
      using commit_conversation_effect [of e ?c w] s by simp
    then show ?thesis
      using assms(1,3) Inserting s Inr nc u by (auto simp add: unique_user_ids_def)
  qed
next
  case (Refreshing e c)
  obtain r v where s: "refresh_conversation e c w = (r, v)"
    by (cases "refresh_conversation e c w") auto
  have eff: "conversations v = conversations w" "\<forall>c'. r = Inr c' \<longrightarrow> c' = c"
    using refresh_conversation_effect [of e c w] s by simp_all
  show ?thesis
    using assms Refreshing s eff by (cases r) (auto simp add: unique_user_ids_def)
next
  case (Returned c)
  then show ?thesis using assms by auto
next
  case (Raised x)
  then show ?thesis using assms by auto
qed

lemma thread_consistent_mono:
  "thread_consistent uid w t \<Longrightarrow> set (conversations w) \<subseteq> set (conversations w')
     \<Longrightarrow> thread_consistent uid w' t"
  by (cases t) auto

lemma run_schedule_invariant:
  assumes "unique_user_ids w" and "\<forall>t \<in> set ts. thread_consistent uid w t"
    and "run_schedule sched (ts, w) = (ts', w')"
  shows "unique_user_ids w' \<and> (\<forall>t \<in> set ts'. thread_consistent uid w' t)"
  using assms
proof (induction sched arbitrary: ts w)
  case Nil
  then show ?case by simp
next
  case (Cons i sched)
  show ?case
  proof (cases "i < length ts")
    case False
    then have "run_schedule sched (ts, w) = (ts', w')" using Cons.prems(3) by simp
    then show ?thesis using Cons.IH Cons.prems(1,2) by blast
  next
    case True
    obtain t1 w1 where s: "goc_step (ts ! i) w = (t1, w1)" by (cases "goc_step (ts ! i) w") auto
    have ti: "thread_consistent uid w (ts ! i)" using Cons.prems(2) True by simp
    have inv: "unique_user_ids w1" "thread_consistent uid w1 t1"
      "set (conversations w) \<subseteq> set (conversations w1)"
      using goc_step_invariant [OF Cons.prems(1) ti s] by simp_all
    have "\<forall>t \<in> set (ts[i := t1]). thread_consistent uid w1 t"
    proof
      fix t assume "t \<in> set (ts[i := t1])"
      then have "t = t1 \<or> t \<in> set ts" using set_update_subset_insert [of ts i t1] by auto
      then show "thread_consistent uid w1 t"
        using inv(2,3) Cons.prems(2) thread_consistent_mono by blast
    qed
    moreover have "run_schedule sched (ts[i := t1], w1) = (ts', w')"
      using Cons.prems(3) True s by simp
    ultimately show ?thesis using Cons.IH inv(1) by blast
  qed
qed

text \<open>An invocation that runs alone is \<^verbatim>\<open>get_or_create\<close>.\<close>

lemma get_or_create_as_steps:
  "run_schedule [0, 0, 0] ([Calling e uid uname], w)
     = ([case fst (get_or_create e uid uname w) of Inl x \<Rightarrow> Raised x | Inr c \<Rightarrow> Returned c],
        snd (get_or_create e uid uname w))"
  by (simp add: get_or_create_def select_active_def commit_conversation_def
        refresh_conversation_def round_trip_def bind_io_def io_return_def Let_def
      split: option.splits list.splits)

text \<open>
  Claim C2 fails on the code for a user whose conversation is no longer active. User
  42 has a resolved conversation and no active one. Two invocations of
  \<^verbatim>\<open>get_or_create\<close> for the user, their steps alternating, both find no active row
  and both insert; both inserts break the uniqueness of \<open>telegram_user_id\<close>, which
  the table declares on the user id alone. Both invocations raise, and no active
  conversation of the user exists afterwards, where the claim has exactly one.
\<close>

theorem concurrent_get_or_create_inactive_user:
  "unique_user_ids world_resolved_42
   \<and> map outcome (fst (run_schedule [0, 1, 0, 1]
        (invocations (JInt 42) [(no_faults 1, JNull), (no_faults 2, JNull)], world_resolved_42)))
     = [Some (Inl IntegrityError), Some (Inl IntegrityError)]
   \<and> active_of (JInt 42) (conversations (snd (run_schedule [0, 1, 0, 1]
        (invocations (JInt 42) [(no_faults 1, JNull), (no_faults 2, JNull)], world_resolved_42))))
     = []"
  by (simp add: unique_user_ids_def invocations_def eval_defs world_resolved_42_def
        resolved_42_def)

text \<open>
  What the uniqueness constraint does secure, under any schedule: the user never has
  two active conversations, and a conversation that an invocation has returned is the
  user's one active row. The lookup and the insert are two steps, with the steps of
  other invocations between them; the insert of the invocation that comes second
  fails on the constraint.
\<close>

theorem concurrent_get_or_create:
  assumes "unique_user_ids w"
    and "run_schedule sched (invocations uid calls, w) = (ts, w')"
  shows "unique_user_ids w'
         \<and> length (active_of uid (conversations w')) \<le> 1
         \<and> (\<forall>c. Returned c \<in> set ts \<longrightarrow> active_of uid (conversations w') = [c])"
proof -
  have "\<forall>t \<in> set (invocations uid calls). thread_consistent uid w t"
    by (auto simp add: invocations_def)
  then have inv: "unique_user_ids w'" "\<forall>t \<in> set ts. thread_consistent uid w' t"
    using run_schedule_invariant [OF assms(1) _ assms(2)] by simp_all
  have d: "distinct (map telegram_user_id (conversations w'))"
    using inv(1) by (simp add: unique_user_ids_def)
  have "\<forall>c. Returned c \<in> set ts \<longrightarrow> active_of uid (conversations w') = [c]"
  proof (intro allI impI)
    fix c assume "Returned c \<in> set ts"
    then have "thread_consistent uid w' (Returned c)" using inv(2) by blast
    then show "active_of uid (conversations w') = [c]"
      using the_active_row [OF d] by simp
  qed
  then show ?thesis using inv(1) at_most_one_active [OF d] by simp
qed

text \<open>
  Two invocations for user 42 on an empty table. When their steps alternate, both
  queries find no row, the first insert succeeds and the second raises; when one runs
  after the other, the second finds the row of the first. Either way the table ends
  with the one row.
\<close>

theorem concurrent_get_or_create_witness:
  "unique_user_ids empty_world
   \<and> map outcome (fst (run_schedule [0, 1, 0, 1, 0, 1]
        (invocations (JInt 42) [(no_faults 1, JNull), (no_faults 2, JNull)], empty_world)))
     = [Some (Inr (new_conversation (no_faults 1) (JInt 42) JNull)), Some (Inl IntegrityError)]
   \<and> conversations (snd (run_schedule [0, 1, 0, 1, 0, 1]
        (invocations (JInt 42) [(no_faults 1, JNull), (no_faults 2, JNull)], empty_world)))
     = [new_conversation (no_faults 1) (JInt 42) JNull]
   \<and> map outcome (fst (run_schedule [0, 0, 0, 1, 1, 1]
        (invocations (JInt 42) [(no_faults 1, JNull), (no_faults 2, JNull)], empty_world)))
     = [Some (Inr (new_conversation (no_faults 1) (JInt 42) JNull)),
        Some (Inr (new_conversation (no_faults 1) (JInt 42) JNull))]
   \<and> active_of (JInt 42) (conversations (snd (run_schedule [0, 0, 0, 1, 1, 1]
        (invocations (JInt 42) [(no_faults 1, JNull), (no_faults 2, JNull)], empty_world))))
     = [new_conversation (no_faults 1) (JInt 42) JNull]"
  using concurrent_get_or_create [of empty_world "[0, 1, 0, 1, 0, 1]" "JInt 42"
      "[(no_faults 1, JNull), (no_faults 2, JNull)]"
      "fst (run_schedule [0, 1, 0, 1, 0, 1]
        (invocations (JInt 42) [(no_faults 1, JNull), (no_faults 2, JNull)], empty_world))"
      "snd (run_schedule [0, 1, 0, 1, 0, 1]
        (invocations (JInt 42) [(no_faults 1, JNull), (no_faults 2, JNull)], empty_world))"]
  by (simp add: unique_user_ids_def invocations_def eval_defs)

section \<open>Replaying an update\<close>

lemma post_tables:
  "conversations (snd (post e name payload w)) = conversations w
   \<and> messages (snd (post e name payload w)) = messages w"
  by (simp add: post_def Let_def split: option.splits)

lemma reply_tables:
  "conversations (snd (bind_io (io_lift (startswith body ''/'')) (\<lambda>is_command.
       if is_command
       then (case body of
               JStr command \<Rightarrow> handle_command e chat_id command conversation
             | _ \<Rightarrow> io_lift (Inl AttributeError))
       else send_message e chat_id received_text JNull JNull) w)) = conversations w
   \<and> messages (snd (bind_io (io_lift (startswith body ''/'')) (\<lambda>is_command.
       if is_command
       then (case body of
               JStr command \<Rightarrow> handle_command e chat_id command conversation
             | _ \<Rightarrow> io_lift (Inl AttributeError))
       else send_message e chat_id received_text JNull JNull) w)) = messages w"
  by (cases body)
     (simp_all add: bind_io_def io_lift_def handle_command_def handle_start_command_def
        handle_help_command_def send_message_def post_tables)

lemma get_or_create_effect:
  assumes "unique_user_ids w" and "get_or_create e uid uname w = (r, w1)"
  shows "unique_user_ids w1 \<and> messages w1 = messages w
         \<and> (active_of uid (conversations w) \<noteq> [] \<longrightarrow> conversations w1 = conversations w)
         \<and> (\<forall>c. r = Inr c \<longrightarrow> active_of uid (conversations w1) = [c])"
proof -
  let ?t = "case r of Inl x \<Rightarrow> Raised x | Inr c \<Rightarrow> Returned c"
  have run: "run_schedule [0, 0, 0] ([Calling e uid uname], w) = ([?t], w1)"
    using get_or_create_as_steps [of e uid uname w] assms(2) by simp
  have inv: "unique_user_ids w1" "thread_consistent uid w1 ?t"
    using run_schedule_invariant [OF assms(1) _ run, of uid] by simp_all
  have d: "distinct (map telegram_user_id (conversations w1))"
    using inv(1) by (simp add: unique_user_ids_def)
  have ret: "\<forall>c. r = Inr c \<longrightarrow> active_of uid (conversations w1) = [c]"
    using inv(2) the_active_row [OF d] by auto
  have m: "messages w1 = messages w" using get_or_create_frame [of e uid uname w] assms(2) by simp
  have same: "active_of uid (conversations w) \<noteq> [] \<longrightarrow> conversations w1 = conversations w"
    using assms(2)
    by (auto simp add: get_or_create_def select_active_def round_trip_def bind_io_def
          io_return_def Let_def split: option.splits list.splits if_splits)
  show ?thesis using inv(1) m same ret by simp
qed

text \<open>
  What \<^verbatim>\<open>handle_message\<close> does to the tables, for a message whose sender is
  \<open>uid\<close>: it keeps the uniqueness constraint, adds no conversation when the user has
  an active one, and adds at most one message, which belongs to the user's active
  conversation and carries the text and the message id of the update.
\<close>

lemma handle_message_effect:
  assumes "unique_user_ids w"
    and "subscript message ''from'' = Inr sender" and "subscript sender ''id'' = Inr uid"
  shows "unique_user_ids (snd (handle_message e message w))
         \<and> (active_of uid (conversations w) \<noteq> []
            \<longrightarrow> conversations (snd (handle_message e message w)) = conversations w)
         \<and> (messages (snd (handle_message e message w)) = messages w
            \<or> (\<exists>x. messages (snd (handle_message e message w)) = messages w @ [x]
                  \<and> map c_id (active_of uid (conversations (snd (handle_message e message w))))
                      = [conversation_id x]
                  \<and> sender_type x = USER
                  \<and> Inr (content x) = dict_get message ''text'' (JStr [])
                  \<and> Inr (telegram_message_id x) = subscript message ''message_id''))"
  (is "?P (snd (handle_message e message w))")
proof -
  let ?tail = "\<lambda>chat_id body conversation.
     bind_io (io_lift (startswith body ''/'')) (\<lambda>is_command.
       if is_command
       then (case body of
               JStr command \<Rightarrow> handle_command e chat_id command conversation
             | _ \<Rightarrow> io_lift (Inl AttributeError))
       else send_message e chat_id received_text JNull JNull)"
  have stay: "?P w" using assms(1) by simp
  have b: "bind_exn (subscript message ''from'') (\<lambda>f. subscript f ''id'') = Inr uid"
    using assms(2,3) by (simp add: bind_exn_def)
  obtain uname where c: "bind_exn (subscript message ''from'') (\<lambda>f. dict_get f ''username'' JNull)
      = Inr uname"
    using assms(2) dict_get_of_dict [OF assms(3), of "''username''" JNull]
    by (auto simp add: bind_exn_def)
  consider (stop) "snd (handle_message e message w) = w"
    | (go) chat_id body mid where "dict_get message ''text'' (JStr []) = Inr body"
        and "subscript message ''message_id'' = Inr mid"
        and "snd (handle_message e message w)
             = snd (bind_io (get_or_create e uid uname) (\<lambda>conversation.
                 bind_io (add_message e (c_id conversation) ''user'' body mid None) (\<lambda>_.
                   ?tail chat_id body conversation)) w)"
    by (cases "bind_exn (subscript message ''chat'') (\<lambda>c. subscript c ''id'')";
        cases "dict_get message ''text'' (JStr [])"; cases "subscript message ''message_id''";
        cases "slice_for_log (projr (dict_get message ''text'' (JStr [])))")
       (simp_all add: handle_message_def swallow_def handle_message_body_def
          bind_io_raise bind_io_value b c)
  then show ?thesis
  proof cases
    case stop
    then show ?thesis using stay by simp
  next
    case go
    obtain r1 w1 where g: "get_or_create e uid uname w = (r1, w1)"
      by (cases "get_or_create e uid uname w") auto
    have ge: "unique_user_ids w1" "messages w1 = messages w"
      "active_of uid (conversations w) \<noteq> [] \<longrightarrow> conversations w1 = conversations w"
      "\<forall>c. r1 = Inr c \<longrightarrow> active_of uid (conversations w1) = [c]"
      using get_or_create_effect [OF assms(1) g] by simp_all
    show ?thesis
    proof (cases r1)
      case (Inl x)
      then have "snd (handle_message e message w) = w1"
        using go(3) g by (simp add: bind_io_def)
      then show ?thesis using ge by simp
    next
      case (Inr conv)
      obtain r2 w2 where a: "add_message e (c_id conv) ''user'' body mid None w1 = (r2, w2)"
        by (cases "add_message e (c_id conv) ''user'' body mid None w1") auto
      have ae: "conversations w2 = conversations w1"
        "messages w2 = messages w1
          \<or> messages w2 = messages w1 @ [new_message e (c_id conv) USER body mid None]"
        using add_message_effect [OF a] by simp_all
      have act: "active_of uid (conversations w1) = [conv]" using ge(4) Inr by simp
      have fin: "conversations (snd (handle_message e message w)) = conversations w2
                 \<and> messages (snd (handle_message e message w)) = messages w2"
      proof (cases r2)
        case (Inl x)
        then show ?thesis using go(3) g Inr a by (simp add: bind_io_def)
      next
        case (Inr y)
        then have "snd (handle_message e message w) = snd (?tail chat_id body conv w2)"
          using go(3) g \<open>r1 = Inr conv\<close> a by (simp add: bind_io_def)
        then show ?thesis using reply_tables [of body e chat_id conv w2] by simp
      qed
      have u: "unique_user_ids (snd (handle_message e message w))"
        using ge(1) fin ae(1) by (simp add: unique_user_ids_def)
      have row: "conversation_id (new_message e (c_id conv) USER body mid None) = c_id conv
          \<and> sender_type (new_message e (c_id conv) USER body mid None) = USER
          \<and> content (new_message e (c_id conv) USER body mid None) = body
          \<and> telegram_message_id (new_message e (c_id conv) USER body mid None) = mid"
        by (simp add: new_message_def Let_def)
      show ?thesis
        using u fin ae ge(2,3) act row go(1,2) by auto
    qed
  qed
qed

text \<open>One run of the handler on a message it can read, when the store takes what it is given.\<close>

lemma handle_message_stores:
  assumes "subscript message ''chat'' = Inr chat" and "subscript chat ''id'' = Inr chat_id"
    and "subscript message ''from'' = Inr sender" and "subscript sender ''id'' = Inr uid"
    and "dict_get sender ''username'' JNull = Inr uname"
    and "dict_get message ''text'' (JStr []) = Inr body" and "slice_for_log body = Inr ()"
    and "subscript message ''message_id'' = Inr mid"
    and "get_or_create e uid uname w = (Inr c, w1)"
    and "add_message e (c_id c) ''user'' body mid None w1 = (Inr m, w2)"
  shows "conversations (snd (handle_message e message w)) = conversations w2
         \<and> messages (snd (handle_message e message w)) = messages w2"
proof -
  have "snd (handle_message e message w)
      = snd (bind_io (io_lift (startswith body ''/'')) (\<lambda>is_command.
         if is_command
         then (case body of
                 JStr command \<Rightarrow> handle_command e chat_id command c
               | _ \<Rightarrow> io_lift (Inl AttributeError))
         else send_message e chat_id received_text JNull JNull) w2)"
    using assms
    by (simp add: handle_message_def swallow_def handle_message_body_def bind_io_raise
          bind_io_value bind_exn_def)
       (simp add: bind_io_def)
  then show ?thesis using reply_tables [of body e chat_id c w2] by simp
qed

text \<open>
  Two runs on the same message, with a storage engine that raises nothing: the
  conversation of the first run is the conversation of the second, and each run
  stores its row.
\<close>

lemma replay_stores_duplicate:
  assumes "subscript message ''chat'' = Inr chat" and "subscript chat ''id'' = Inr chat_id"
    and "subscript message ''from'' = Inr sender" and "subscript sender ''id'' = Inr uid"
    and "dict_get sender ''username'' JNull = Inr uname"
    and "dict_get message ''text'' (JStr []) = Inr body" and "slice_for_log body = Inr ()"
    and "subscript message ''message_id'' = Inr mid"
    and "\<forall>op. storage_fault e1 op = None" and "\<forall>op. storage_fault e2 op = None"
    and "\<not> out_of_int32 uid"
    and "uuid4_message e1 \<notin> set (map m_id (messages w))"
    and "uuid4_message e2 \<notin> set (map m_id (messages w))"
    and "uuid4_message e2 \<noteq> uuid4_message e1"
    and "active_of uid (conversations w) = [c]
         \<or> (uid \<notin> set (map telegram_user_id (conversations w))
            \<and> uuid4_conversation e1 \<notin> set (map c_id (conversations w))
            \<and> c = new_conversation e1 uid uname)"
  shows "conversations (snd (handle_message e2 message (snd (handle_message e1 message w))))
           = (if active_of uid (conversations w) = [c] then conversations w
              else conversations w @ [c])
         \<and> active_of uid (conversations
               (snd (handle_message e2 message (snd (handle_message e1 message w))))) = [c]
         \<and> messages (snd (handle_message e2 message (snd (handle_message e1 message w))))
           = messages w @ [new_message e1 (c_id c) USER body mid None,
                           new_message e2 (c_id c) USER body mid None]"
proof -
  let ?w1 = "snd (handle_message e1 message w)"
  let ?w2 = "snd (handle_message e2 message ?w1)"
  let ?cs = "if active_of uid (conversations w) = [c] then conversations w
             else conversations w @ [c]"
  have first: "\<exists>v. get_or_create e1 uid uname w = (Inr c, v) \<and> conversations v = ?cs
      \<and> messages v = messages w \<and> active_of uid (conversations v) = [c]"
    using assms(15)
  proof
    assume a: "active_of uid (conversations w) = [c]"
    then show ?thesis using get_or_create_found [OF a, of e1 uname] assms(9,11) by simp
  next
    assume n: "uid \<notin> set (map telegram_user_id (conversations w))
            \<and> uuid4_conversation e1 \<notin> set (map c_id (conversations w))
            \<and> c = new_conversation e1 uid uname"
    then have "active_of uid (conversations w) = []" using active_of_unknown_user by blast
    then show ?thesis
      using get_or_create_new_user [of uid w e1 uname] n assms(9,11)
      by (simp add: active_of_append new_conversation_def)
  qed
  then obtain v where g1: "get_or_create e1 uid uname w = (Inr c, v)" "conversations v = ?cs"
      "messages v = messages w" "active_of uid (conversations v) = [c]"
    by blast
  have cv: "c \<in> set (conversations v)" using g1(4) active_of_member by blast
  have a1: "add_message e1 (c_id c) ''user'' body mid None v
      = (Inr (new_message e1 (c_id c) USER body mid None),
         v\<lparr>messages := messages v @ [new_message e1 (c_id c) USER body mid None],
           store_calls := store_calls v @ [CommitMessage, RefreshMessage]\<rparr>)"
    using cv g1(3) assms(9,12) by (intro add_message_stored) simp_all
  have w1: "conversations ?w1 = ?cs"
    "messages ?w1 = messages w @ [new_message e1 (c_id c) USER body mid None]"
    using handle_message_stores [OF assms(1-8) g1(1) a1] g1(2,3) by simp_all
  have act1: "active_of uid (conversations ?w1) = [c]" using w1(1) g1(2,4) by simp
  have g2: "get_or_create e2 uid uname ?w1
      = (Inr c, ?w1\<lparr>store_calls := store_calls ?w1 @ [SelectConversation]\<rparr>)"
    using get_or_create_found [OF act1, of e2 uname] assms(10,11) by simp
  have c1: "c \<in> set (conversations ?w1)" using act1 active_of_member by blast
  have fresh: "uuid4_message e2 \<notin> set (map m_id (messages ?w1))"
    using w1(2) assms(13,14) by (simp add: new_message_def Let_def)
  have a2: "add_message e2 (c_id c) ''user'' body mid None
        (?w1\<lparr>store_calls := store_calls ?w1 @ [SelectConversation]\<rparr>)
      = (Inr (new_message e2 (c_id c) USER body mid None),
         (?w1\<lparr>store_calls := store_calls ?w1 @ [SelectConversation]\<rparr>)
           \<lparr>messages := messages ?w1 @ [new_message e2 (c_id c) USER body mid None],
            store_calls := store_calls ?w1 @ [SelectConversation]
              @ [CommitMessage, RefreshMessage]\<rparr>)"
    using add_message_stored [of "c_id c" "?w1\<lparr>store_calls := store_calls ?w1 @ [SelectConversation]\<rparr>"
        e2 body mid] c1 fresh assms(10)
    by simp
  have w2: "conversations ?w2 = conversations ?w1"
    "messages ?w2 = messages ?w1 @ [new_message e2 (c_id c) USER body mid None]"
    using handle_message_stores [OF assms(1-8) g2 a2] by simp_all
  show ?thesis using w1 w2 act1 by simp
qed

text \<open>
  Claim C9. Process a chat-message update, then process the same update again, on a
  conversations table that satisfies its uniqueness constraint. Whatever the storage
  engine and the platform do in either run, the sender has at most one active
  conversation afterwards, and every message row the two runs add, at most one each,
  belongs to that conversation and carries the text and the message id of the update.
  If the sender has an active conversation after the first run, the second run adds
  no conversation, and its \<^verbatim>\<open>get_or_create\<close> returns exactly that conversation
  unless the storage engine fails the query. And when the storage engine raises
  nothing in either run, for a message the handler can read from a sender who has one
  active conversation or no row yet, the two runs leave one active conversation of
  the sender, created by the first run if there was none, and two message rows of
  that conversation that differ in their identifier and creation time only.
\<close>

theorem replay_resolves_same_conversation:
  assumes "unique_user_ids w"
    and "dict_get update ''message'' JNull = Inr message"
    and "subscript message ''from'' = Inr sender" and "subscript sender ''id'' = Inr uid"
    and "dict_get sender ''username'' JNull = Inr uname"
    and "process_update e1 update w = (r1, w1)"
    and "process_update e2 update w1 = (r2, w2)"
  shows "length (active_of uid (conversations w2)) \<le> 1
         \<and> (\<forall>c. active_of uid (conversations w1) = [c]
              \<longrightarrow> conversations w2 = conversations w1
                \<and> fst (get_or_create e2 uid uname w1)
                  = (case storage_fault e2 SelectConversation of
                       Some x \<Rightarrow> Inl x
                     | None \<Rightarrow> if out_of_int32 uid then Inl DataError else Inr c))
         \<and> length (messages w2) \<le> length (messages w) + 2
         \<and> (\<forall>x \<in> set (drop (length (messages w)) (messages w2)).
               map c_id (active_of uid (conversations w2)) = [conversation_id x]
               \<and> sender_type x = USER
               \<and> Inr (content x) = dict_get message ''text'' (JStr [])
               \<and> Inr (telegram_message_id x) = subscript message ''message_id'')
         \<and> (\<forall>chat chat_id body mid c.
               subscript message ''chat'' = Inr chat \<and> subscript chat ''id'' = Inr chat_id
               \<and> dict_get message ''text'' (JStr []) = Inr body \<and> slice_for_log body = Inr ()
               \<and> subscript message ''message_id'' = Inr mid
               \<and> (\<forall>op. storage_fault e1 op = None) \<and> (\<forall>op. storage_fault e2 op = None)
               \<and> \<not> out_of_int32 uid
               \<and> uuid4_message e1 \<notin> set (map m_id (messages w))
               \<and> uuid4_message e2 \<notin> set (map m_id (messages w))
               \<and> uuid4_message e2 \<noteq> uuid4_message e1
               \<and> (active_of uid (conversations w) = [c]
                  \<or> (uid \<notin> set (map telegram_user_id (conversations w))
                     \<and> uuid4_conversation e1 \<notin> set (map c_id (conversations w))
                     \<and> c = new_conversation e1 uid uname))
              \<longrightarrow> conversations w2
                  = (if active_of uid (conversations w) = [c] then conversations w
                     else conversations w @ [c])
                \<and> active_of uid (conversations w2) = [c]
                \<and> messages w2
                  = messages w @
                    [\<lparr>m_id = uuid4_message e1, conversation_id = c_id c, sender_type = USER,
                      content = body, telegram_message_id = mid, llm_used = False,
                      llm_model = JNull, llm_tokens_used = JNull, llm_confidence = JNull,
                      llm_latency_ms = JNull, m_created_at = utcnow_message e1\<rparr>,
                     \<lparr>m_id = uuid4_message e2, conversation_id = c_id c, sender_type = USER,
                      content = body, telegram_message_id = mid, llm_used = False,
                      llm_model = JNull, llm_tokens_used = JNull, llm_confidence = JNull,
                      llm_latency_ms = JNull, m_created_at = utcnow_message e2\<rparr>])"
proof -
  have t: "truthy message" using assms(3) by (rule subscript_truthy)
  have h1: "snd (handle_message e1 message w) = w1"
    using process_update_message [OF assms(2) t, of e1 w] assms(6) by (metis snd_conv)
  have h2: "snd (handle_message e2 message w1) = w2"
    using process_update_message [OF assms(2) t, of e2 w1] assms(7) by (metis snd_conv)
  let ?row = "\<lambda>v x. map c_id (active_of uid (conversations v)) = [conversation_id x]
      \<and> sender_type x = USER
      \<and> Inr (content x) = dict_get message ''text'' (JStr [])
      \<and> Inr (telegram_message_id x) = subscript message ''message_id''"
  have first: "unique_user_ids w1"
    "messages w1 = messages w \<or> (\<exists>x. messages w1 = messages w @ [x] \<and> ?row w1 x)"
    using handle_message_effect [OF assms(1,3,4), of e1] h1 by simp_all
  have second: "unique_user_ids w2"
    "active_of uid (conversations w1) \<noteq> [] \<longrightarrow> conversations w2 = conversations w1"
    "messages w2 = messages w1 \<or> (\<exists>x. messages w2 = messages w1 @ [x] \<and> ?row w2 x)"
    using handle_message_effect [OF first(1) assms(3,4), of e2] h2 by simp_all
  have one: "length (active_of uid (conversations w2)) \<le> 1"
    using second(1) at_most_one_active by (simp add: unique_user_ids_def)
  have same: "\<forall>c. active_of uid (conversations w1) = [c]
      \<longrightarrow> conversations w2 = conversations w1
        \<and> fst (get_or_create e2 uid uname w1)
          = (case storage_fault e2 SelectConversation of
               Some x \<Rightarrow> Inl x
             | None \<Rightarrow> if out_of_int32 uid then Inl DataError else Inr c)"
    using second(2) get_or_create_active [of uid w1 _ e2 uname] by auto
  have kept: "\<And>x. ?row w1 x \<Longrightarrow> ?row w2 x"
  proof -
    fix x assume r: "?row w1 x"
    then have "active_of uid (conversations w1) \<noteq> []" by auto
    then have "conversations w2 = conversations w1" using second(2) by simp
    then show "?row w2 x" using r by simp
  qed
  consider (none) "messages w2 = messages w"
    | (first_only) x where "messages w2 = messages w @ [x]" and "?row w2 x"
    | (both) x y where "messages w2 = messages w @ [x, y]" and "?row w2 x" and "?row w2 y"
    using first(2) second(3) kept by (elim disjE exE conjE) auto
  then have rows: "length (messages w2) \<le> length (messages w) + 2
      \<and> (\<forall>x \<in> set (drop (length (messages w)) (messages w2)). ?row w2 x)"
    by cases auto
  have dup: "conversations w2
        = (if active_of uid (conversations w) = [c] then conversations w
           else conversations w @ [c])
      \<and> active_of uid (conversations w2) = [c]
      \<and> messages w2
        = messages w @ [new_message e1 (c_id c) USER body mid None,
                        new_message e2 (c_id c) USER body mid None]"
    if "subscript message ''chat'' = Inr chat" "subscript chat ''id'' = Inr chat_id"
      "dict_get message ''text'' (JStr []) = Inr body" "slice_for_log body = Inr ()"
      "subscript message ''message_id'' = Inr mid"
      "\<forall>op. storage_fault e1 op = None" "\<forall>op. storage_fault e2 op = None"
      "\<not> out_of_int32 uid"
      "uuid4_message e1 \<notin> set (map m_id (messages w))"
      "uuid4_message e2 \<notin> set (map m_id (messages w))"
      "uuid4_message e2 \<noteq> uuid4_message e1"
      "active_of uid (conversations w) = [c]
         \<or> (uid \<notin> set (map telegram_user_id (conversations w))
            \<and> uuid4_conversation e1 \<notin> set (map c_id (conversations w))
            \<and> c = new_conversation e1 uid uname)"
    for chat chat_id body mid c
    using replay_stores_duplicate [OF that(1,2) assms(3,4,5) that(3-12)] unfolding h1 h2 .
  show ?thesis
    using one same rows dup by (simp add: new_message_def Let_def)
qed

text \<open>
  The \<^verbatim>\<open>/start\<close> update of user 42 processed twice on empty tables: one
  conversation, created by the first run and returned by the \<^verbatim>\<open>get_or_create\<close> of the
  second, and two message rows of that conversation with the same content and the
  same platform message id.
\<close>

theorem replay_resolves_same_conversation_witness:
  "unique_user_ids empty_world
   \<and> (\<forall>op. storage_fault (no_faults 1) op = None) \<and> \<not> out_of_int32 (JInt 42)
   \<and> conversations (snd (process_update (no_faults 1) start_update empty_world))
     = [new_conversation (no_faults 1) (JInt 42) JNull]
   \<and> fst (get_or_create (no_faults 2) (JInt 42) JNull
            (snd (process_update (no_faults 1) start_update empty_world)))
     = Inr (new_conversation (no_faults 1) (JInt 42) JNull)
   \<and> conversations (snd (process_update (no_faults 2) start_update
        (snd (process_update (no_faults 1) start_update empty_world))))
     = [new_conversation (no_faults 1) (JInt 42) JNull]
   \<and> messages (snd (process_update (no_faults 2) start_update
        (snd (process_update (no_faults 1) start_update empty_world))))
     = [new_message (no_faults 1) 1 USER (JStr ''/start'') (JInt 9) None,
        new_message (no_faults 2) 1 USER (JStr ''/start'') (JInt 9) None]"
  using replay_resolves_same_conversation [of empty_world start_update
      "chat_message 1 42 ''/start'' 9" "JObj [(''id'', JInt 42)]" "JInt 42" JNull "no_faults 1"
      "fst (process_update (no_faults 1) start_update empty_world)"
      "snd (process_update (no_faults 1) start_update empty_world)" "no_faults 2"
      "fst (process_update (no_faults 2) start_update
         (snd (process_update (no_faults 1) start_update empty_world)))"
      "snd (process_update (no_faults 2) start_update
         (snd (process_update (no_faults 1) start_update empty_world)))"]
  by (simp add: unique_user_ids_def eval_defs start_update_def chat_message_def)

end
